theory Spec2Isabelle
  imports Complex_Main
begin

section \<open>Arrays\<close>

text \<open>
  The second notebook works on numpy arrays of floating-point numbers. Here a float is a
  \<^typ>\<open>real\<close>: the arithmetic is exact, and rounding, overflow to \<open>inf\<close> and \<open>nan\<close> are
  outside the model. Where numpy would produce \<open>nan\<close> or \<open>inf\<close> and carry on (the mean of an
  empty array), the model stops with \<open>NanOrInf\<close>; where Python raises, the model returns
  the exception.

  A two-dimensional array carries its shape, as numpy does, so that an array with no rows
  still has a column count. \<open>rows\<close> holds \<open>nrows\<close> lists of \<open>ncols\<close> entries each
  (\<open>well_shaped\<close>).
\<close>

datatype error =
    ValueError | ZeroDivisionError | IndexError | KeyError | TypeError | NameError
  | NanOrInf | Unmodelled

datatype ndarray = Arr (nrows: nat) (ncols: nat) (rows: "real list list")

definition well_shaped :: "ndarray \<Rightarrow> bool" where
  "well_shaped A \<longleftrightarrow> length (rows A) = nrows A \<and> list_all (\<lambda>r. length r = ncols A) (rows A)"

definition elt :: "ndarray \<Rightarrow> nat \<Rightarrow> nat \<Rightarrow> real" where
  "elt A i j = rows A ! i ! j"

definition mk :: "nat \<Rightarrow> nat \<Rightarrow> (nat \<Rightarrow> nat \<Rightarrow> real) \<Rightarrow> ndarray" where
  "mk n m f = Arr n m (map (\<lambda>i. map (\<lambda>j. f i j) [0..<m]) [0..<n])"

definition map_nd :: "(real \<Rightarrow> real) \<Rightarrow> ndarray \<Rightarrow> ndarray" where
  "map_nd f A = Arr (nrows A) (ncols A) (map (map f) (rows A))"

text \<open>\<open>numpy.dot\<close> of two 2-D arrays: the matrix product, \<open>ValueError\<close> when the inner
  dimensions differ.\<close>

definition dot :: "ndarray \<Rightarrow> ndarray \<Rightarrow> error + ndarray" where
  "dot A B =
     (if ncols A \<noteq> nrows B then Inl ValueError
      else Inr (mk (nrows A) (ncols B)
                  (\<lambda>i j. sum_list (map (\<lambda>k. elt A i k * elt B k j) [0..<ncols A]))))"

definition transpose_nd :: "ndarray \<Rightarrow> ndarray" where
  "transpose_nd A = mk (ncols A) (nrows A) (\<lambda>i j. elt A j i)"

text \<open>Broadcasting of an elementwise binary operator over two 2-D arrays: along each
  axis the lengths must agree or one of them must be 1, and an axis of length 1 is
  repeated.\<close>

definition bdim :: "nat \<Rightarrow> nat \<Rightarrow> nat option" where
  "bdim a b = (if a = b then Some a else if a = 1 then Some b else if b = 1 then Some a else None)"

definition bcast :: "(real \<Rightarrow> real \<Rightarrow> real) \<Rightarrow> ndarray \<Rightarrow> ndarray \<Rightarrow> error + ndarray" where
  "bcast f A B =
     (case (bdim (nrows A) (nrows B), bdim (ncols A) (ncols B)) of
        (Some n, Some m) \<Rightarrow>
          Inr (mk n m (\<lambda>i j. f (elt A (if nrows A = 1 then 0 else i) (if ncols A = 1 then 0 else j))
                                (elt B (if nrows B = 1 then 0 else i) (if ncols B = 1 then 0 else j))))
      | _ \<Rightarrow> Inl ValueError)"

definition sub :: "ndarray \<Rightarrow> ndarray \<Rightarrow> error + ndarray" where
  "sub A B = bcast (\<lambda>a b. a - b) A B"

definition add :: "ndarray \<Rightarrow> ndarray \<Rightarrow> error + ndarray" where
  "add A B = bcast (\<lambda>a b. a + b) A B"

definition smul :: "real \<Rightarrow> ndarray \<Rightarrow> ndarray" where
  "smul c A = map_nd (\<lambda>v. c * v) A"

text \<open>\<open>numpy.mean\<close> over all entries. On an empty array numpy returns \<open>nan\<close>.\<close>

definition mean :: "ndarray \<Rightarrow> error + real" where
  "mean A =
     (if nrows A * ncols A = 0 then Inl NanOrInf
      else Inr (sum_list (concat (rows A)) / real (nrows A * ncols A)))"

section \<open>The linear model\<close>

definition linear_model :: "ndarray \<Rightarrow> ndarray \<Rightarrow> error + ndarray" where
  "linear_model W input_images = dot input_images W"

definition evaluate :: "ndarray \<Rightarrow> ndarray \<Rightarrow> ndarray \<Rightarrow> error + real" where
  "evaluate W input_images true_labels =
     (case linear_model W input_images of
        Inl e \<Rightarrow> Inl e
      | Inr predicted_label \<Rightarrow>
          (case sub true_labels predicted_label of
             Inl e \<Rightarrow> Inl e
           | Inr d \<Rightarrow> mean (map_nd (\<lambda>v. v ^ 2) d)))"

text \<open>In \<open>learn\<close>, \<open>2./n\<close> is a Python float divided by a Python int: it raises
  \<open>ZeroDivisionError\<close> when the batch has no rows, after the prediction has been computed
  and before the difference is.\<close>

definition learn :: "ndarray \<Rightarrow> ndarray \<Rightarrow> ndarray \<Rightarrow> real \<Rightarrow> error + ndarray" where
  "learn input_images true_labels current_W learning_rate =
     (let n = nrows input_images in
      case linear_model current_W input_images of
        Inl e \<Rightarrow> Inl e
      | Inr label_predictions \<Rightarrow>
          if n = 0 then Inl ZeroDivisionError
          else
            (case sub label_predictions true_labels of
               Inl e \<Rightarrow> Inl e
             | Inr d \<Rightarrow>
                 (case dot (transpose_nd input_images) d of
                    Inl e \<Rightarrow> Inl e
                  | Inr g \<Rightarrow>
                      (let dJW_dW = smul (2 / real n) g
                       in sub current_W (smul learning_rate dJW_dW)))))"

text \<open>The update as the specification writes it, entry by entry:
  \<open>W - eta * (2/n) * X\<^sup>T (X W - y)\<close>.\<close>

definition gradient_step_spec :: "ndarray \<Rightarrow> ndarray \<Rightarrow> ndarray \<Rightarrow> real \<Rightarrow> ndarray" where
  "gradient_step_spec X y W eta =
     mk (nrows W) (ncols W)
        (\<lambda>i j. elt W i j - eta * (2 / real (nrows X)) *
                 (\<Sum>r<nrows X. elt X r i * ((\<Sum>k<ncols X. elt X r k * elt W k j) - elt y r j)))"

text \<open>The mean squared error as the specification writes it, for a weight vector (one
  column) and a label vector (one column).\<close>

definition mse_spec :: "ndarray \<Rightarrow> ndarray \<Rightarrow> ndarray \<Rightarrow> real" where
  "mse_spec W X y =
     (1 / real (nrows X)) *
       (\<Sum>i<nrows X. (elt y i 0 - (\<Sum>k<ncols X. elt X i k * elt W k 0)) ^ 2)"

text \<open>The gradient of the mean squared error with respect to weight \<open>i\<close> of a weight
  vector, as calculus gives it, and the weight vector with weight \<open>i\<close> replaced, for the
  statement that the one is the derivative of the loss along the other.\<close>

definition mse_gradient :: "ndarray \<Rightarrow> ndarray \<Rightarrow> ndarray \<Rightarrow> nat \<Rightarrow> real" where
  "mse_gradient X y W i =
     (2 / real (nrows X)) *
       (\<Sum>r<nrows X. elt X r i * ((\<Sum>k<ncols X. elt X r k * elt W k 0) - elt y r 0))"

definition set_weight :: "ndarray \<Rightarrow> nat \<Rightarrow> real \<Rightarrow> ndarray" where
  "set_weight W i t = mk (nrows W) (ncols W) (\<lambda>a b. if a = i \<and> b = 0 then t else elt W a b)"

section \<open>Sigmoid, softmax and the layered models\<close>

text \<open>\<open>sigmoid\<close> on one score; on an array it is applied to every entry
  (\<open>map_nd sigmoid\<close>). Its divisor \<open>1 + exp (- x)\<close> is never zero.\<close>

definition sigmoid :: "real \<Rightarrow> real" where
  "sigmoid x = 1 / (1 + exp (- x))"

text \<open>The first \<open>classification_model(A, b, input_images)\<close>. Its body multiplies by
  the global variable \<open>W\<close>, not by the parameter \<open>A\<close>; the first argument of the model
  is the value of that global when the function is called.\<close>

definition classification_model :: "ndarray \<Rightarrow> ndarray \<Rightarrow> ndarray \<Rightarrow> ndarray \<Rightarrow> error + ndarray" where
  "classification_model global_W A b input_images =
     (case dot input_images global_W of
        Inl e \<Rightarrow> Inl e
      | Inr xw \<Rightarrow>
          (case add xw b of
             Inl e \<Rightarrow> Inl e
           | Inr s \<Rightarrow> Inr (map_nd sigmoid s)))"

text \<open>\<open>numpy.sum(a, axis=1)\<close> gives one sum per row, a 1-D array; \<open>v[:,None]\<close> turns
  a 1-D array into a column.\<close>

definition sum_axis1 :: "ndarray \<Rightarrow> real list" where
  "sum_axis1 A = map sum_list (rows A)"

definition column :: "real list \<Rightarrow> ndarray" where
  "column v = Arr (length v) 1 (map (\<lambda>s. [s]) v)"

definition softmax :: "ndarray \<Rightarrow> error + ndarray" where
  "softmax x =
     (let normalization = sum_axis1 (map_nd exp x)
      in bcast (\<lambda>a b. a / b) (map_nd exp x) (column normalization))"

text \<open>The second \<open>classification_model\<close>, which replaces the first one.\<close>

definition classification_model_softmax :: "ndarray \<Rightarrow> ndarray \<Rightarrow> ndarray \<Rightarrow> error + ndarray" where
  "classification_model_softmax W b input_images =
     (case dot input_images W of
        Inl e \<Rightarrow> Inl e
      | Inr xw \<Rightarrow>
          (case add xw b of
             Inl e \<Rightarrow> Inl e
           | Inr s \<Rightarrow> softmax s))"

text \<open>One layer \<open>sigmoid(numpy.dot(x, W) + b)\<close>, the expression that
  \<open>nonlinear_model\<close> nests.\<close>

definition layer :: "ndarray \<Rightarrow> ndarray \<Rightarrow> ndarray \<Rightarrow> error + ndarray" where
  "layer x W b =
     (case dot x W of
        Inl e \<Rightarrow> Inl e
      | Inr xw \<Rightarrow>
          (case add xw b of
             Inl e \<Rightarrow> Inl e
           | Inr s \<Rightarrow> Inr (map_nd sigmoid s)))"

definition nonlinear_model :: "ndarray \<Rightarrow> ndarray \<Rightarrow> ndarray \<Rightarrow> ndarray \<Rightarrow> ndarray \<Rightarrow> error + ndarray" where
  "nonlinear_model W1 W2 b1 b2 input_images =
     (case layer input_images W1 b1 of
        Inl e \<Rightarrow> Inl e
      | Inr h \<Rightarrow> layer h W2 b2)"

text \<open>The three-layer \<open>nonlinear_model\<close>, which replaces the two-layer one.\<close>

definition nonlinear_model3 ::
  "ndarray \<Rightarrow> ndarray \<Rightarrow> ndarray \<Rightarrow> ndarray \<Rightarrow> ndarray \<Rightarrow> ndarray \<Rightarrow> ndarray \<Rightarrow> error + ndarray" where
  "nonlinear_model3 A1 A2 A3 b1 b2 b3 input_images =
     (case layer input_images A1 b1 of
        Inl e \<Rightarrow> Inl e
      | Inr h1 \<Rightarrow>
          (case layer h1 A2 b2 of
             Inl e \<Rightarrow> Inl e
           | Inr h2 \<Rightarrow> layer h2 A3 b3))"

section \<open>Pre-processing of the images\<close>

text \<open>The data set is a 3-D array of integer pixels, one 2-D image per example.\<close>

datatype 'a tensor3 = Arr3 (dim0: nat) (dim1: nat) (dim2: nat) (items: "'a list list list")

definition well_shaped3 :: "'a tensor3 \<Rightarrow> bool" where
  "well_shaped3 T \<longleftrightarrow>
     length (items T) = dim0 T \<and>
     list_all (\<lambda>im. length im = dim1 T \<and> list_all (\<lambda>r. length r = dim2 T) im) (items T)"

definition pixel :: "'a tensor3 \<Rightarrow> nat \<Rightarrow> nat \<Rightarrow> nat \<Rightarrow> 'a" where
  "pixel T i r c = items T ! i ! r ! c"

definition map3 :: "('a \<Rightarrow> 'b) \<Rightarrow> 'a tensor3 \<Rightarrow> 'b tensor3" where
  "map3 f T = Arr3 (dim0 T) (dim1 T) (dim2 T) (map (map (map f)) (items T))"

text \<open>\<open>x = x.astype(numpy.float32); x /= 255.\<close>\<close>

definition normalize_pixels :: "int tensor3 \<Rightarrow> real tensor3" where
  "normalize_pixels x = map3 (\<lambda>v. v / 255) (map3 real_of_int x)"

text \<open>\<open>x = x.reshape(x.shape[0], numpy.prod(x[0,:,:].shape))\<close>: \<open>x[0,:,:]\<close> raises
  \<open>IndexError\<close> when there is no example; otherwise every image is laid out row after
  row.\<close>

definition flatten :: "real tensor3 \<Rightarrow> error + ndarray" where
  "flatten x =
     (if dim0 x = 0 then Inl IndexError
      else Inr (Arr (dim0 x) (dim1 x * dim2 x) (map concat (items x))))"

text \<open>All pixels of a data set, in storage order.\<close>

definition pixels :: "'a tensor3 \<Rightarrow> 'a list" where
  "pixels T = concat (map concat (items T))"

definition preprocess :: "int tensor3 \<Rightarrow> error + ndarray" where
  "preprocess x = flatten (normalize_pixels x)"

section \<open>The training loop\<close>

text \<open>\<open>x_train[:batch_size, :]\<close> and \<open>y_train[:batch_size, numpy.newaxis]\<close>: a slice
  stops at the end of the array. The labels are integers; they enter the arithmetic as
  floats.\<close>

definition batch_size :: nat where
  "batch_size = 100"

definition slice_rows :: "nat \<Rightarrow> ndarray \<Rightarrow> ndarray" where
  "slice_rows k A = Arr (min k (nrows A)) (ncols A) (take k (rows A))"

definition slice_newaxis :: "nat \<Rightarrow> int list \<Rightarrow> ndarray" where
  "slice_newaxis k y = column (map real_of_int (take k y))"

text \<open>The global variables the loop reads and writes. The loop counter is the
  argument of the recursion.\<close>

record train_state =
  x_train_batch :: ndarray
  y_train_batch :: ndarray
  learning_rate :: real
  W :: ndarray
  losses :: "real list"

definition num_iters :: nat where
  "num_iters = 5000"

text \<open>The loop body: \<open>W = learn(x_train_batch, y_train_batch, W, learning_rate)\<close>, then
  \<open>losses[i] = evaluate(W, x_train_batch, y_train_batch)\<close>.\<close>

definition loop_body :: "nat \<Rightarrow> train_state \<Rightarrow> error + train_state" where
  "loop_body i s =
     (case learn (x_train_batch s) (y_train_batch s) (W s) (learning_rate s) of
        Inl e \<Rightarrow> Inl e
      | Inr w \<Rightarrow>
          (let s1 = s\<lparr>W := w\<rparr> in
           case evaluate (W s1) (x_train_batch s1) (y_train_batch s1) of
             Inl e \<Rightarrow> Inl e
           | Inr l \<Rightarrow>
               if i < length (losses s1) then Inr (s1\<lparr>losses := (losses s1)[i := l]\<rparr>)
               else Inl IndexError))"

text \<open>\<open>for i in range(0, num_iters)\<close> runs the body over the list of indices.\<close>

fun for_loop :: "nat list \<Rightarrow> train_state \<Rightarrow> error + train_state" where
  "for_loop [] s = Inr s"
| "for_loop (i # is) s =
     (case loop_body i s of
        Inl e \<Rightarrow> Inl e
      | Inr s' \<Rightarrow> for_loop is s')"

text \<open>The training cell: the assignments before the loop (\<open>init_training\<close>), then the
  loop. \<open>numpy.random.rand\<close> is a parameter: \<open>rnd i j\<close> is the sample drawn for entry
  \<open>(i, j)\<close>.\<close>

definition init_training ::
  "(nat \<Rightarrow> nat \<Rightarrow> real) \<Rightarrow> ndarray \<Rightarrow> ndarray \<Rightarrow> ndarray \<Rightarrow> train_state" where
  "init_training rnd x_train xb yb =
     (let num_features = ncols x_train;
          W0 = smul 0.01 (mk num_features 1 rnd)
      in \<lparr>x_train_batch = xb, y_train_batch = yb, learning_rate = 0.0005,
          W = W0, losses = replicate num_iters 0\<rparr>)"

definition training_cell ::
  "(nat \<Rightarrow> nat \<Rightarrow> real) \<Rightarrow> ndarray \<Rightarrow> ndarray \<Rightarrow> ndarray \<Rightarrow> error + train_state" where
  "training_cell rnd x_train xb yb =
     for_loop [0..<num_iters] (init_training rnd x_train xb yb)"

text \<open>The weights after \<open>k\<close> updates on a batch, for the statement about \<open>losses\<close>.\<close>

fun weights_after :: "nat \<Rightarrow> ndarray \<Rightarrow> ndarray \<Rightarrow> real \<Rightarrow> ndarray \<Rightarrow> error + ndarray" where
  "weights_after 0 xb yb eta W0 = Inr W0"
| "weights_after (Suc k) xb yb eta W0 =
     (case weights_after k xb yb eta W0 of
        Inl e \<Rightarrow> Inl e
      | Inr w \<Rightarrow> learn xb yb w eta)"

text \<open>The shapes under which the loop runs: a batch of \<open>n > 0\<close> examples with one label
  each, and one weight per feature.\<close>

definition batch_ok :: "ndarray \<Rightarrow> ndarray \<Rightarrow> bool" where
  "batch_ok xb yb \<longleftrightarrow>
     well_shaped xb \<and> well_shaped yb \<and> 0 < nrows xb \<and> nrows yb = nrows xb \<and> ncols yb = 1"

definition weights_ok :: "ndarray \<Rightarrow> ndarray \<Rightarrow> bool" where
  "weights_ok xb w \<longleftrightarrow> well_shaped w \<and> nrows w = ncols xb \<and> ncols w = 1"

section \<open>The second notebook, cell by cell\<close>

text \<open>
  The global variables of the notebook are a dictionary from names to values. A code
  cell is a function on it that returns the dictionary after the cell, or the exception
  that stops the cell. What the notebook gets from outside is a parameter
  (\<open>externals\<close>): the data set returned by \<open>load_data\<close>, the samples drawn by the
  successive calls of \<open>numpy.random.rand\<close>, and Keras' \<open>to_categorical\<close>. Plotting and
  printing do not touch the global variables and are left out, except for the reads
  that can raise. Modules and library functions are taken as available, and a call of a
  function of the notebook is a call of the definition in force when the notebook runs
  from top to bottom. The model covers each variable holding the kind of value the
  notebook gives it; on any other kind a cell of the model stops with \<open>Unmodelled\<close>.
\<close>

datatype pyval =
    VInt int
  | VFloat real
  | VArr ndarray
  | VVec "real list"
  | VLabels "int list"
  | VRaw "int tensor3"
  | VImages "real tensor3"
  | VFun string
  | VModule string

type_synonym globals = "string \<Rightarrow> pyval option"

record externals =
  load_data :: "(int tensor3 \<times> int list) \<times> (int tensor3 \<times> int list)"
  random_rand :: "nat \<Rightarrow> nat \<Rightarrow> nat \<Rightarrow> real"
  to_categorical :: "int list \<Rightarrow> nat \<Rightarrow> error + ndarray"

text \<open>Assignments in sequence: a later one wins.\<close>

fun assign :: "globals \<Rightarrow> (string \<times> pyval) list \<Rightarrow> globals" where
  "assign g [] = g"
| "assign g ((n, v) # bs) = assign (g(n \<mapsto> v)) bs"

definition get_arr :: "globals \<Rightarrow> string \<Rightarrow> error + ndarray" where
  "get_arr g n = (case g n of None \<Rightarrow> Inl NameError | Some (VArr a) \<Rightarrow> Inr a | Some _ \<Rightarrow> Inl Unmodelled)"

definition get_vec :: "globals \<Rightarrow> string \<Rightarrow> error + real list" where
  "get_vec g n = (case g n of None \<Rightarrow> Inl NameError | Some (VVec a) \<Rightarrow> Inr a | Some _ \<Rightarrow> Inl Unmodelled)"

definition get_labels :: "globals \<Rightarrow> string \<Rightarrow> error + int list" where
  "get_labels g n = (case g n of None \<Rightarrow> Inl NameError | Some (VLabels a) \<Rightarrow> Inr a | Some _ \<Rightarrow> Inl Unmodelled)"

definition get_raw :: "globals \<Rightarrow> string \<Rightarrow> error + int tensor3" where
  "get_raw g n = (case g n of None \<Rightarrow> Inl NameError | Some (VRaw a) \<Rightarrow> Inr a | Some _ \<Rightarrow> Inl Unmodelled)"

definition get_images :: "globals \<Rightarrow> string \<Rightarrow> error + real tensor3" where
  "get_images g n = (case g n of None \<Rightarrow> Inl NameError | Some (VImages a) \<Rightarrow> Inr a | Some _ \<Rightarrow> Inl Unmodelled)"

definition get_int :: "globals \<Rightarrow> string \<Rightarrow> error + int" where
  "get_int g n = (case g n of None \<Rightarrow> Inl NameError | Some (VInt a) \<Rightarrow> Inr a | Some _ \<Rightarrow> Inl Unmodelled)"

text \<open>A 1-D array of length \<open>k\<close> broadcasts against a 2-D array as one row of \<open>k\<close> entries.\<close>

definition row_vector :: "real list \<Rightarrow> ndarray" where
  "row_vector v = Arr 1 (length v) [v]"

text \<open>\<open>import tensorflow as tf\<close>, \<open>import numpy\<close>, \<open>import matplotlib.pyplot as plt\<close>\<close>

definition cell_imports :: "globals \<Rightarrow> error + globals" where
  "cell_imports g =
     Inr (assign g [(''tf'', VModule ''tensorflow''), (''numpy'', VModule ''numpy''),
                    (''plt'', VModule ''matplotlib.pyplot'')])"

text \<open>\<open>(x_train, y_train), (x_test, y_test) = tf.keras.datasets.mnist.load_data()\<close>\<close>

definition cell_load :: "externals \<Rightarrow> globals \<Rightarrow> error + globals" where
  "cell_load ext g =
     (case load_data ext of
        ((x_train, y_train), (x_test, y_test)) \<Rightarrow>
          Inr (assign g [(''x_train'', VRaw x_train), (''y_train'', VLabels y_train),
                         (''x_test'', VRaw x_test), (''y_test'', VLabels y_test)]))"

text \<open>The conversion to float and the division by 255, of \<open>x_train\<close> and of \<open>x_test\<close>.\<close>

definition cell_normalize :: "globals \<Rightarrow> error + globals" where
  "cell_normalize g =
     (case get_raw g ''x_train'' of
        Inl e \<Rightarrow> Inl e
      | Inr x_train \<Rightarrow>
          (case get_raw g ''x_test'' of
             Inl e \<Rightarrow> Inl e
           | Inr x_test \<Rightarrow>
               Inr (assign g [(''x_train'', VImages (normalize_pixels x_train)),
                              (''x_test'', VImages (normalize_pixels x_test))])))"

text \<open>The two \<open>reshape\<close> statements.\<close>

definition cell_flatten :: "globals \<Rightarrow> error + globals" where
  "cell_flatten g =
     (case get_images g ''x_train'' of
        Inl e \<Rightarrow> Inl e
      | Inr x_train \<Rightarrow>
          (case flatten x_train of
             Inl e \<Rightarrow> Inl e
           | Inr x_train' \<Rightarrow>
               (case get_images g ''x_test'' of
                  Inl e \<Rightarrow> Inl e
                | Inr x_test \<Rightarrow>
                    (case flatten x_test of
                       Inl e \<Rightarrow> Inl e
                     | Inr x_test' \<Rightarrow>
                         Inr (assign g [(''x_train'', VArr x_train'),
                                        (''x_test'', VArr x_test')])))))"

text \<open>\<open>y_train = y_train.astype(numpy.int32)\<close>, the same for \<open>y_test\<close>, then the prints,
  which read \<open>x_train\<close> and \<open>x_test\<close>. The labels are small integers and keep their
  values.\<close>

definition cell_labels :: "globals \<Rightarrow> error + globals" where
  "cell_labels g =
     (case get_labels g ''y_train'' of
        Inl e \<Rightarrow> Inl e
      | Inr y_train \<Rightarrow>
          (case get_labels g ''y_test'' of
             Inl e \<Rightarrow> Inl e
           | Inr y_test \<Rightarrow>
               (case get_arr g ''x_train'' of
                  Inl e \<Rightarrow> Inl e
                | Inr x_train \<Rightarrow>
                    (case get_arr g ''x_test'' of
                       Inl e \<Rightarrow> Inl e
                     | Inr x_test \<Rightarrow>
                         Inr (assign g [(''y_train'', VLabels y_train),
                                        (''y_test'', VLabels y_test)])))))"

text \<open>The loops that show the first ten digits. Iteration \<open>i\<close> reads row \<open>i\<close> of
  \<open>x_train\<close>, reshapes it to 28 by 28, and reads entry \<open>i\<close> of each of the other arrays it
  shows: \<open>lens\<close> are the lengths of those. The loop of the check of the linear model then
  formats the entry it has read with \<open>'%1.2f'\<close>, which takes an array of one number
  (\<open>one_number\<close>) and raises \<open>TypeError\<close> on any other.\<close>

fun show_loop :: "nat list \<Rightarrow> ndarray \<Rightarrow> nat list \<Rightarrow> bool \<Rightarrow> error + unit" where
  "show_loop [] x lens one_number = Inr ()"
| "show_loop (i # is) x lens one_number =
     (if nrows x \<le> i then Inl IndexError
      else if ncols x \<noteq> 28 * 28 then Inl ValueError
      else if list_ex (\<lambda>l. l \<le> i) lens then Inl IndexError
      else if \<not> one_number then Inl TypeError
      else show_loop is x lens one_number)"

definition cell_show_digits :: "globals \<Rightarrow> error + globals" where
  "cell_show_digits g =
     (case get_arr g ''x_train'' of
        Inl e \<Rightarrow> Inl e
      | Inr x_train \<Rightarrow>
          (case get_labels g ''y_train'' of
             Inl e \<Rightarrow> Inl e
           | Inr y_train \<Rightarrow>
               (case show_loop [0..<10] x_train [length y_train] True of
                  Inl e \<Rightarrow> Inl e
                | Inr u \<Rightarrow> Inr (assign g [(''pltsize'', VInt 1), (''i'', VInt 9)]))))"

text \<open>The three cells that define \<open>linear_model\<close>, \<open>evaluate\<close> and \<open>learn\<close>.\<close>

definition cell_def_linear_model :: "globals \<Rightarrow> error + globals" where
  "cell_def_linear_model g = Inr (assign g [(''linear_model'', VFun ''linear_model'')])"

definition cell_def_evaluate :: "globals \<Rightarrow> error + globals" where
  "cell_def_evaluate g = Inr (assign g [(''evaluate'', VFun ''evaluate'')])"

definition cell_def_learn :: "globals \<Rightarrow> error + globals" where
  "cell_def_learn g = Inr (assign g [(''learn'', VFun ''learn'')])"

text \<open>The batch cell.\<close>

definition cell_batch :: "globals \<Rightarrow> error + globals" where
  "cell_batch g =
     (case get_arr g ''x_train'' of
        Inl e \<Rightarrow> Inl e
      | Inr x_train \<Rightarrow>
          (case get_labels g ''y_train'' of
             Inl e \<Rightarrow> Inl e
           | Inr y_train \<Rightarrow>
               Inr (assign g [(''batch_size'', VInt (int batch_size)),
                              (''x_train_batch'', VArr (slice_rows batch_size x_train)),
                              (''y_train_batch'', VArr (slice_newaxis batch_size y_train))])))"

text \<open>The training cell: the only place where the notebook calls \<open>learn\<close>. After the
  loop the counter \<open>i\<close> holds the last index.\<close>

definition cell_train :: "externals \<Rightarrow> globals \<Rightarrow> error + globals" where
  "cell_train ext g =
     (case get_arr g ''x_train'' of
        Inl e \<Rightarrow> Inl e
      | Inr x_train \<Rightarrow>
          (case get_arr g ''x_train_batch'' of
             Inl e \<Rightarrow> Inl e
           | Inr xb \<Rightarrow>
               (case get_arr g ''y_train_batch'' of
                  Inl e \<Rightarrow> Inl e
                | Inr yb \<Rightarrow>
                    (case training_cell (random_rand ext 0) x_train xb yb of
                       Inl e \<Rightarrow> Inl e
                     | Inr s \<Rightarrow>
                         Inr (assign g [(''num_features'', VInt (int (ncols x_train))),
                                        (''learning_rate'', VFloat (learning_rate s)),
                                        (''num_iters'', VInt (int num_iters)),
                                        (''W'', VArr (W s)),
                                        (''losses'', VVec (losses s)),
                                        (''i'', VInt (int num_iters - 1))])))))"

text \<open>The check of the linear model on the first ten digits, which shows
  \<open>'%1.2f' % predicted_labels[i]\<close> over each of them.\<close>

definition cell_check_linear :: "globals \<Rightarrow> error + globals" where
  "cell_check_linear g =
     (case get_arr g ''W'' of
        Inl e \<Rightarrow> Inl e
      | Inr w \<Rightarrow>
          (case get_arr g ''x_train'' of
             Inl e \<Rightarrow> Inl e
           | Inr x_train \<Rightarrow>
               (case linear_model w (slice_rows 10 x_train) of
                  Inl e \<Rightarrow> Inl e
                | Inr predicted_labels \<Rightarrow>
                    (case show_loop [0..<10] x_train [nrows predicted_labels]
                            (ncols predicted_labels = 1) of
                       Inl e \<Rightarrow> Inl e
                     | Inr u \<Rightarrow>
                         Inr (assign g [(''pltsize'', VInt 1),
                                        (''predicted_labels'', VArr predicted_labels),
                                        (''i'', VInt 9)])))))"

text \<open>The cell that defines \<open>sigmoid\<close> and the first \<open>classification_model\<close>.\<close>

definition cell_def_sigmoid :: "globals \<Rightarrow> error + globals" where
  "cell_def_sigmoid g =
     Inr (assign g [(''sigmoid'', VFun ''sigmoid''),
                    (''classification_model'', VFun ''classification_model'')])"

text \<open>\<open>x = numpy.arange(-10, 10, step=.1)\<close>, 200 points, for the plot of \<open>sigmoid\<close>.\<close>

definition cell_plot_sigmoid :: "globals \<Rightarrow> error + globals" where
  "cell_plot_sigmoid g =
     Inr (assign g [(''x'', VVec (map (\<lambda>k. - 10 + real k * 0.1) [0..<200]))])"

text \<open>The one-hot encoding.\<close>

definition cell_onehot :: "externals \<Rightarrow> globals \<Rightarrow> error + globals" where
  "cell_onehot ext g =
     (case get_labels g ''y_train'' of
        Inl e \<Rightarrow> Inl e
      | Inr y_train \<Rightarrow>
          (case to_categorical ext y_train 10 of
             Inl e \<Rightarrow> Inl e
           | Inr y_train_onehot \<Rightarrow>
               (case get_labels g ''y_test'' of
                  Inl e \<Rightarrow> Inl e
                | Inr y_test \<Rightarrow>
                    (case to_categorical ext y_test 10 of
                       Inl e \<Rightarrow> Inl e
                     | Inr y_test_onehot \<Rightarrow>
                         Inr (assign g [(''nb_classes'', VInt 10),
                                        (''y_train_onehot'', VArr y_train_onehot),
                                        (''y_test_onehot'', VArr y_test_onehot)])))))"

definition cell_show_onehot :: "globals \<Rightarrow> error + globals" where
  "cell_show_onehot g =
     (case get_arr g ''x_train'' of
        Inl e \<Rightarrow> Inl e
      | Inr x_train \<Rightarrow>
          (case get_labels g ''y_train'' of
             Inl e \<Rightarrow> Inl e
           | Inr y_train \<Rightarrow>
               (case get_arr g ''y_train_onehot'' of
                  Inl e \<Rightarrow> Inl e
                | Inr y_train_onehot \<Rightarrow>
                    (case show_loop [0..<10] x_train [length y_train, nrows y_train_onehot] True of
                       Inl e \<Rightarrow> Inl e
                     | Inr u \<Rightarrow> Inr (assign g [(''pltsize'', VInt 1), (''i'', VInt 9)])))))"

definition cell_def_softmax :: "globals \<Rightarrow> error + globals" where
  "cell_def_softmax g = Inr (assign g [(''softmax'', VFun ''softmax'')])"

text \<open>\<open>W = .01 * numpy.random.rand(num_features,10)\<close>, \<open>b = .01 * numpy.random.rand(10,)\<close>
  and the second \<open>classification_model\<close>. A negative \<open>num_features\<close> makes \<open>rand\<close> raise.\<close>

definition cell_init_classifier :: "externals \<Rightarrow> globals \<Rightarrow> error + globals" where
  "cell_init_classifier ext g =
     (case get_int g ''num_features'' of
        Inl e \<Rightarrow> Inl e
      | Inr num_features \<Rightarrow>
          if num_features < 0 then Inl ValueError
          else
            Inr (assign g [(''W'', VArr (smul 0.01 (mk (nat num_features) 10 (random_rand ext 1)))),
                           (''b'', VVec (map (\<lambda>j. 0.01 * random_rand ext 2 0 j) [0..<10])),
                           (''classification_model'', VFun ''classification_model (softmax)'')]))"

text \<open>\<open>predicted_labels = classification_model(W, b, x_train[:5,:])\<close>\<close>

definition cell_apply_classifier :: "globals \<Rightarrow> error + globals" where
  "cell_apply_classifier g =
     (case get_arr g ''W'' of
        Inl e \<Rightarrow> Inl e
      | Inr w \<Rightarrow>
          (case get_vec g ''b'' of
             Inl e \<Rightarrow> Inl e
           | Inr b \<Rightarrow>
               (case get_arr g ''x_train'' of
                  Inl e \<Rightarrow> Inl e
                | Inr x_train \<Rightarrow>
                    (case classification_model_softmax w (row_vector b) (slice_rows 5 x_train) of
                       Inl e \<Rightarrow> Inl e
                     | Inr predicted_labels \<Rightarrow>
                         Inr (assign g [(''predicted_labels'', VArr predicted_labels)])))))"

text \<open>The two prints of \<open>predicted_labels[0,:]\<close>.\<close>

definition cell_print_probabilities :: "globals \<Rightarrow> error + globals" where
  "cell_print_probabilities g =
     (case get_arr g ''predicted_labels'' of
        Inl e \<Rightarrow> Inl e
      | Inr predicted_labels \<Rightarrow>
          if nrows predicted_labels = 0 then Inl IndexError else Inr g)"

text \<open>The two cells that define \<open>nonlinear_model\<close>, with two layers and then with three.
  Each binds the name of the function and nothing else.\<close>

definition cell_def_nonlinear_model :: "globals \<Rightarrow> error + globals" where
  "cell_def_nonlinear_model g =
     Inr (assign g [(''nonlinear_model'', VFun ''nonlinear_model (two layers)'')])"

definition cell_def_nonlinear_model3 :: "globals \<Rightarrow> error + globals" where
  "cell_def_nonlinear_model3 g =
     Inr (assign g [(''nonlinear_model'', VFun ''nonlinear_model (three layers)'')])"

definition cell_empty :: "globals \<Rightarrow> error + globals" where
  "cell_empty g = Inr g"

text \<open>The code cells of the notebook, from top to bottom.\<close>

definition notebook :: "externals \<Rightarrow> (globals \<Rightarrow> error + globals) list" where
  "notebook ext =
     [cell_imports, cell_load ext, cell_normalize, cell_flatten, cell_labels,
      cell_show_digits, cell_def_linear_model, cell_def_evaluate, cell_def_learn,
      cell_batch, cell_train ext, cell_check_linear, cell_def_sigmoid, cell_plot_sigmoid,
      cell_onehot ext, cell_show_onehot, cell_def_softmax, cell_init_classifier ext,
      cell_apply_classifier, cell_print_probabilities, cell_def_nonlinear_model,
      cell_def_nonlinear_model3, cell_empty, cell_empty]"

fun run_cells :: "(globals \<Rightarrow> error + globals) list \<Rightarrow> globals \<Rightarrow> error + globals" where
  "run_cells [] g = Inr g"
| "run_cells (c # cs) g =
     (case c g of
        Inl e \<Rightarrow> Inl e
      | Inr g' \<Rightarrow> run_cells cs g')"

text \<open>The parameters of the two-layer \<open>nonlinear_model\<close>.\<close>

definition mlp_params :: "string list" where
  "mlp_params = [''W1'', ''W2'', ''b1'', ''b2'']"

text \<open>A cell keeps the names \<open>ns\<close> when, whenever it returns, each of them is bound as
  before, or unbound as before.\<close>

definition keeps :: "string list \<Rightarrow> (globals \<Rightarrow> error + globals) \<Rightarrow> bool" where
  "keeps ns c \<longleftrightarrow> (\<forall>g g'. c g = Inr g' \<longrightarrow> (\<forall>n\<in>set ns. g' n = g n))"

section \<open>The first notebook: the slimmed data set\<close>

text \<open>
  A pandas data frame: the column labels and, row by row, the index label with the
  cells of the row. \<open>read_csv\<close> gives distinct column labels and the index labels
  \<open>0, 1, 2, \<dots>\<close>; a cell is an integer, a float, a string, a boolean or missing (\<open>NaN\<close>).
  The cells that only display something (the cross table, the frame, the plot) assign
  nothing and are left out.
\<close>

datatype cell = IntV int | FloatV real | StrV string | BoolV bool | NaN

record dataframe =
  columns :: "string list"
  records :: "(int \<times> cell list) list"

definition well_formed :: "dataframe \<Rightarrow> bool" where
  "well_formed df \<longleftrightarrow>
     distinct (columns df) \<and> list_all (\<lambda>r. length (snd r) = length (columns df)) (records df)"

fun index_of :: "'a \<Rightarrow> 'a list \<Rightarrow> nat option" where
  "index_of x [] = None"
| "index_of x (y # ys) = (if x = y then Some 0 else map_option Suc (index_of x ys))"

text \<open>\<open>df[name]\<close>: the cells of one column, \<open>KeyError\<close> when there is no such column.\<close>

definition getitem_column :: "dataframe \<Rightarrow> string \<Rightarrow> error + cell list" where
  "getitem_column df name =
     (case index_of name (columns df) of
        None \<Rightarrow> Inl KeyError
      | Some k \<Rightarrow> Inr (map (\<lambda>r. snd r ! k) (records df)))"

text \<open>\<open>cell > k\<close> for an integer \<open>k\<close>: a missing value compares false, a boolean counts as
  0 or 1, a string raises \<open>TypeError\<close>.\<close>

fun gt_scalar :: "cell \<Rightarrow> int \<Rightarrow> error + bool" where
  "gt_scalar (IntV n) k = Inr (k < n)"
| "gt_scalar (FloatV x) k = Inr (real_of_int k < x)"
| "gt_scalar (BoolV b) k = Inr (k < (if b then 1 else 0))"
| "gt_scalar NaN k = Inr False"
| "gt_scalar (StrV s) k = Inl TypeError"

fun series_gt :: "cell list \<Rightarrow> int \<Rightarrow> error + bool list" where
  "series_gt [] k = Inr []"
| "series_gt (c # cs) k =
     (case gt_scalar c k of
        Inl e \<Rightarrow> Inl e
      | Inr b \<Rightarrow>
          (case series_gt cs k of
             Inl e \<Rightarrow> Inl e
           | Inr bs \<Rightarrow> Inr (b # bs)))"

text \<open>\<open>df[mask]\<close>: the rows whose mask entry is true, in order, with their index labels.\<close>

definition getitem_mask :: "dataframe \<Rightarrow> bool list \<Rightarrow> dataframe" where
  "getitem_mask df selected = df\<lparr>records := map fst (filter snd (zip (records df) selected))\<rparr>"

text \<open>\<open>df[[name, \<dots>]]\<close>: the listed columns in the listed order, \<open>KeyError\<close> when one is
  missing.\<close>

fun column_indices :: "string list \<Rightarrow> string list \<Rightarrow> error + nat list" where
  "column_indices cols [] = Inr []"
| "column_indices cols (n # ns) =
     (case index_of n cols of
        None \<Rightarrow> Inl KeyError
      | Some k \<Rightarrow>
          (case column_indices cols ns of
             Inl e \<Rightarrow> Inl e
           | Inr ks \<Rightarrow> Inr (k # ks)))"

definition getitem_columns :: "dataframe \<Rightarrow> string list \<Rightarrow> error + dataframe" where
  "getitem_columns df names =
     (case column_indices (columns df) names of
        Inl e \<Rightarrow> Inl e
      | Inr ks \<Rightarrow>
          Inr \<lparr>columns = names,
               records = map (\<lambda>r. (fst r, map (\<lambda>k. snd r ! k) ks)) (records df)\<rparr>)"

text \<open>\<open>df.to_csv(path)\<close> with its defaults writes a header line and one line per row, and
  each line starts with the index: the header with the (empty) name of the index, a row
  with its index label. The file is modelled as its lines, a line as its fields, and a
  field as the value written.\<close>

definition to_csv :: "dataframe \<Rightarrow> cell list list" where
  "to_csv df =
     (StrV [] # map StrV (columns df)) # map (\<lambda>r. IntV (fst r) # snd r) (records df)"

text \<open>\<open>df2 = df[df['OverallCond'] > 5]\<close>\<close>

definition make_df2 :: "dataframe \<Rightarrow> error + dataframe" where
  "make_df2 df =
     (case getitem_column df ''OverallCond'' of
        Inl e \<Rightarrow> Inl e
      | Inr cond \<Rightarrow>
          (case series_gt cond 5 of
             Inl e \<Rightarrow> Inl e
           | Inr selected \<Rightarrow> Inr (getitem_mask df selected)))"

text \<open>\<open>slim_df = df2[['SalePrice','GrLivArea']]\<close>\<close>

definition make_slim_df :: "dataframe \<Rightarrow> error + dataframe" where
  "make_slim_df df2 = getitem_columns df2 [''SalePrice'', ''GrLivArea'']"

text \<open>The notebook from the frame read by \<open>read_csv\<close> to the file written by \<open>to_csv\<close>.\<close>

definition slimmed_realestate_data :: "dataframe \<Rightarrow> error + cell list list" where
  "slimmed_realestate_data df =
     (case make_df2 df of
        Inl e \<Rightarrow> Inl e
      | Inr df2 \<Rightarrow>
          (case make_slim_df df2 of
             Inl e \<Rightarrow> Inl e
           | Inr slim_df \<Rightarrow> Inr (to_csv slim_df)))"

text \<open>Whether a cell exceeds \<open>k\<close>, for the statement about the filter.\<close>

definition exceeds :: "cell \<Rightarrow> int \<Rightarrow> bool" where
  "exceeds c k \<longleftrightarrow> gt_scalar c k = Inr True"

definition is_string :: "cell \<Rightarrow> bool" where
  "is_string c = (case c of StrV s \<Rightarrow> True | _ \<Rightarrow> False)"

section \<open>Facts about arrays\<close>

lemma nrows_mk: "nrows (mk n m f) = n"
  by (simp add: mk_def)

lemma ncols_mk: "ncols (mk n m f) = m"
  by (simp add: mk_def)

lemma well_shaped_mk: "well_shaped (mk n m f)"
  by (simp add: well_shaped_def mk_def list_all_iff)

lemma elt_mk: "i < n \<Longrightarrow> j < m \<Longrightarrow> elt (mk n m f) i j = f i j"
  by (simp add: elt_def mk_def)

lemma mk_cong: "(\<And>i j. i < n \<Longrightarrow> j < m \<Longrightarrow> f i j = g i j) \<Longrightarrow> mk n m f = mk n m g"
  by (simp add: mk_def)

lemma well_shaped_eq_mk: "well_shaped A \<Longrightarrow> A = mk (nrows A) (ncols A) (elt A)"
proof -
  assume w: "well_shaped A"
  have "rows A = map (\<lambda>i. map (\<lambda>j. rows A ! i ! j) [0..<ncols A]) [0..<nrows A]"
  proof (rule nth_equalityI)
    show "length (rows A) = length (map (\<lambda>i. map (\<lambda>j. rows A ! i ! j) [0..<ncols A]) [0..<nrows A])"
      using w by (simp add: well_shaped_def)
  next
    fix i assume i: "i < length (rows A)"
    then have len: "length (rows A ! i) = ncols A"
      using w by (simp add: well_shaped_def list_all_length)
    have "rows A ! i = map (\<lambda>j. rows A ! i ! j) [0..<ncols A]"
      by (rule nth_equalityI) (simp_all add: len)
    then show "rows A ! i = map (\<lambda>i. map (\<lambda>j. rows A ! i ! j) [0..<ncols A]) [0..<nrows A] ! i"
      using i w by (simp add: well_shaped_def)
  qed
  then show ?thesis
    by (cases A) (simp add: mk_def elt_def)
qed

lemma well_shaped_map_nd: "well_shaped A \<Longrightarrow> well_shaped (map_nd f A)"
  by (simp add: well_shaped_def map_nd_def list_all_iff)

lemma elt_map_nd: "well_shaped A \<Longrightarrow> i < nrows A \<Longrightarrow> j < ncols A \<Longrightarrow> elt (map_nd f A) i j = f (elt A i j)"
  by (simp add: well_shaped_def map_nd_def elt_def list_all_length)

lemma map_nd_eq_mk: "well_shaped A \<Longrightarrow> map_nd f A = mk (nrows A) (ncols A) (\<lambda>i j. f (elt A i j))"
proof -
  assume w: "well_shaped A"
  have "map_nd f A = mk (nrows (map_nd f A)) (ncols (map_nd f A)) (elt (map_nd f A))"
    by (rule well_shaped_eq_mk) (rule well_shaped_map_nd [OF w])
  also have "\<dots> = mk (nrows A) (ncols A) (elt (map_nd f A))"
    by (simp add: map_nd_def)
  also have "\<dots> = mk (nrows A) (ncols A) (\<lambda>i j. f (elt A i j))"
    by (rule mk_cong) (simp add: elt_map_nd [OF w])
  finally show ?thesis .
qed

lemma bcast_same_shape:
  "nrows A = nrows B \<Longrightarrow> ncols A = ncols B \<Longrightarrow>
   bcast f A B = Inr (mk (nrows A) (ncols A) (\<lambda>i j. f (elt A i j) (elt B i j)))"
proof -
  assume r: "nrows A = nrows B" and c: "ncols A = ncols B"
  have "mk (nrows B) (ncols B)
          (\<lambda>i j. f (elt A (if nrows B = 1 then 0 else i) (if ncols B = 1 then 0 else j))
                    (elt B (if nrows B = 1 then 0 else i) (if ncols B = 1 then 0 else j)))
        = mk (nrows B) (ncols B) (\<lambda>i j. f (elt A i j) (elt B i j))"
    by (rule mk_cong) auto
  then show ?thesis
    using r c by (simp add: bcast_def bdim_def)
qed

lemma sum_list_upt_sum: "sum_list (map f [0..<n]) = (\<Sum>k<n. f k)"
  by (simp add: interv_sum_list_conv_sum_set_nat lessThan_atLeast0)

lemma nrows_map_nd: "nrows (map_nd f A) = nrows A"
  by (simp add: map_nd_def)

lemma ncols_map_nd: "ncols (map_nd f A) = ncols A"
  by (simp add: map_nd_def)

lemma concat_singletons: "concat (map (\<lambda>i. [g i]) xs) = map g xs"
  by (induction xs) simp_all

lemma mean_mk_column:
  "0 < n \<Longrightarrow> mean (mk n 1 f) = Inr ((\<Sum>i<n. f i 0) / real n)"
  by (simp add: mean_def mk_def concat_singletons sum_list_upt_sum)

section \<open>The gradient step\<close>

lemma learn_value:
  fixes X y W :: ndarray
  assumes wX: "well_shaped X" and wW: "well_shaped W" and wy: "well_shaped y"
    and n: "0 < nrows X" and d: "ncols X = nrows W"
    and yr: "nrows y = nrows X" and yc: "ncols y = ncols W"
  shows "learn X y W eta = Inr (gradient_step_spec X y W eta)"
proof -
  let ?n = "nrows X" and ?d = "ncols X" and ?k = "ncols W"
  let ?P = "mk ?n ?k (\<lambda>i j. \<Sum>k<?d. elt X i k * elt W k j)"
  have p: "linear_model W X = Inr ?P"
    using d by (simp add: linear_model_def dot_def sum_list_upt_sum)
  let ?D = "mk ?n ?k (\<lambda>i j. elt ?P i j - elt y i j)"
  have s: "sub ?P y = Inr ?D"
    unfolding sub_def using yr yc by (simp add: bcast_same_shape nrows_mk ncols_mk)
  let ?G = "mk ?d ?k (\<lambda>i j. \<Sum>r<?n. elt (transpose_nd X) i r * elt ?D r j)"
  have g: "dot (transpose_nd X) ?D = Inr ?G"
    by (simp add: dot_def transpose_nd_def nrows_mk ncols_mk sum_list_upt_sum)
  have wG: "well_shaped ?G" by (rule well_shaped_mk)
  let ?S = "smul eta (smul (2 / real ?n) ?G)"
  have S: "?S = mk ?d ?k (\<lambda>i j. eta * ((2 / real ?n) * elt ?G i j))"
    unfolding smul_def
    apply (subst map_nd_eq_mk [OF wG])
    apply (subst map_nd_eq_mk [OF well_shaped_mk])
    apply (simp add: nrows_mk ncols_mk)
    apply (rule mk_cong)
    apply (simp add: elt_mk)
    done
  have f: "sub W ?S = Inr (mk (nrows W) ?k (\<lambda>i j. elt W i j - elt ?S i j))"
    unfolding sub_def
    by (rule bcast_same_shape)
       (simp_all add: smul_def nrows_map_nd ncols_map_nd nrows_mk ncols_mk d)
  have e: "mk (nrows W) ?k (\<lambda>i j. elt W i j - elt ?S i j) = gradient_step_spec X y W eta"
    unfolding gradient_step_spec_def S
    apply (rule mk_cong)
    apply (simp add: elt_mk d transpose_nd_def)
    done
  show ?thesis
    unfolding learn_def Let_def using n by (simp add: p s g f e)
qed

lemma prediction_set_weight:
  fixes X W :: ndarray
  assumes i: "i < nrows W" and c: "0 < ncols W" and d: "ncols X = nrows W"
  shows "(\<Sum>k<ncols X. elt X r k * elt (set_weight W i t) k 0)
         = (\<Sum>k<ncols X. elt X r k * elt W k 0) + elt X r i * (t - elt W i 0)"
proof -
  have "(\<Sum>k<ncols X. elt X r k * elt (set_weight W i t) k 0)
        = (\<Sum>k<ncols X. elt X r k * elt W k 0 + (if k = i then elt X r i * (t - elt W i 0) else 0))"
    by (rule sum.cong) (auto simp: set_weight_def elt_mk d c algebra_simps)
  also have "\<dots> = (\<Sum>k<ncols X. elt X r k * elt W k 0)
                  + (\<Sum>k<ncols X. if k = i then elt X r i * (t - elt W i 0) else 0)"
    by (rule sum.distrib)
  also have "(\<Sum>k<ncols X. if k = i then elt X r i * (t - elt W i 0) else 0)
             = elt X r i * (t - elt W i 0)"
    using i d by (simp add: sum.delta')
  finally show ?thesis .
qed

lemma mse_has_gradient:
  fixes X y W :: ndarray
  assumes i: "i < nrows W" and c: "0 < ncols W" and d: "ncols X = nrows W"
  shows "((\<lambda>t. mse_spec (set_weight W i t) X y) has_real_derivative mse_gradient X y W i)
           (at (elt W i 0))"
proof -
  let ?P = "\<lambda>r. \<Sum>k<ncols X. elt X r k * elt W k 0"
  have f: "(\<lambda>t. mse_spec (set_weight W i t) X y)
           = (\<lambda>t. (1 / real (nrows X)) *
                    (\<Sum>r<nrows X. (elt y r 0 - (?P r + elt X r i * (t - elt W i 0))) ^ 2))"
    by (simp add: mse_spec_def prediction_set_weight [OF i c d])
  have sq: "((\<lambda>t. (a - (p + b * (t - w))) ^ 2) has_real_derivative (2 * (b * (p - a)))) (at w)"
    for a b p w :: real
    by (auto intro!: derivative_eq_intros simp: algebra_simps)
  have "((\<lambda>t. \<Sum>r<nrows X. (elt y r 0 - (?P r + elt X r i * (t - elt W i 0))) ^ 2)
         has_real_derivative (\<Sum>r<nrows X. 2 * (elt X r i * (?P r - elt y r 0))))
          (at (elt W i 0))"
    by (rule DERIV_sum) (rule sq)
  then have "((\<lambda>t. (1 / real (nrows X)) *
                (\<Sum>r<nrows X. (elt y r 0 - (?P r + elt X r i * (t - elt W i 0))) ^ 2))
         has_real_derivative
           (1 / real (nrows X)) * (\<Sum>r<nrows X. 2 * (elt X r i * (?P r - elt y r 0))))
          (at (elt W i 0))"
    by (rule DERIV_cmult)
  also have "(1 / real (nrows X)) * (\<Sum>r<nrows X. 2 * (elt X r i * (?P r - elt y r 0)))
        = mse_gradient X y W i"
    unfolding mse_gradient_def
    by (simp add: sum_distrib_left)
  finally show ?thesis
    by (simp only: f)
qed

text \<open>
  Claim C2. For a batch \<open>X\<close> with \<open>n > 0\<close> rows, weights \<open>W\<close> with one row per column of
  \<open>X\<close>, labels \<open>y\<close> of the shape of the prediction \<open>X W\<close> and a learning rate \<open>eta\<close>,
  \<open>learn X y W eta\<close> returns exactly \<open>W - eta * (2/n) * X\<^sup>T (X W - y)\<close>. For a weight
  vector and a label vector (one column each, as in the notebook) this is one
  constant-step update with the analytic gradient of the mean squared error over the
  batch: entry \<open>i\<close> of the result is \<open>W\<^sub>i - eta * mse_gradient X y W i\<close>, and
  \<open>mse_gradient X y W i\<close> is the derivative of the loss with respect to weight \<open>i\<close>.
\<close>

theorem learn_is_gradient_step:
  fixes X y W :: ndarray
  assumes "well_shaped X" and "well_shaped W" and "well_shaped y"
    and "0 < nrows X" and "ncols X = nrows W"
    and "nrows y = nrows X" and "ncols y = ncols W"
  shows "learn X y W eta = Inr (gradient_step_spec X y W eta) \<and>
         (ncols W = 1 \<longrightarrow>
            (\<forall>i<nrows W.
               elt (gradient_step_spec X y W eta) i 0 = elt W i 0 - eta * mse_gradient X y W i \<and>
               ((\<lambda>t. mse_spec (set_weight W i t) X y) has_real_derivative mse_gradient X y W i)
                 (at (elt W i 0))))"
proof (intro conjI impI allI)
  show "learn X y W eta = Inr (gradient_step_spec X y W eta)"
    using assms by (rule learn_value)
next
  fix i assume c: "ncols W = 1" and i: "i < nrows W"
  show "elt (gradient_step_spec X y W eta) i 0 = elt W i 0 - eta * mse_gradient X y W i"
    using c i by (simp add: gradient_step_spec_def mse_gradient_def elt_mk)
  show "((\<lambda>t. mse_spec (set_weight W i t) X y) has_real_derivative mse_gradient X y W i)
          (at (elt W i 0))"
    using i c assms(5) by (intro mse_has_gradient) simp_all
qed

theorem learn_is_gradient_step_witness:
  "well_shaped (Arr 2 1 [[1], [2]]) \<and> well_shaped (Arr 1 1 [[3]]) \<and> well_shaped (Arr 2 1 [[1], [0]]) \<and>
   learn (Arr 2 1 [[1], [2]]) (Arr 2 1 [[1], [0]]) (Arr 1 1 [[3]]) (1 / 2) = Inr (Arr 1 1 [[- 4]])"
  using learn_is_gradient_step [of "Arr 2 1 [[1], [2]]" "Arr 1 1 [[3]]" "Arr 2 1 [[1], [0]]" "1 / 2"]
  by (simp add: well_shaped_def gradient_step_spec_def mk_def elt_def eval_nat_numeral)

section \<open>The loss\<close>

lemma evaluate_value:
  fixes X y W :: ndarray
  assumes wX: "well_shaped X" and wW: "well_shaped W" and wy: "well_shaped y"
    and n: "0 < nrows X" and d: "ncols X = nrows W" and k: "ncols W = 1"
    and yr: "nrows y = nrows X" and yc: "ncols y = 1"
  shows "evaluate W X y = Inr (mse_spec W X y)"
proof -
  let ?n = "nrows X" and ?d = "ncols X"
  let ?P = "mk ?n 1 (\<lambda>i j. \<Sum>k<?d. elt X i k * elt W k j)"
  have p: "linear_model W X = Inr ?P"
    using d k by (simp add: linear_model_def dot_def sum_list_upt_sum)
  let ?D = "mk ?n 1 (\<lambda>i j. elt y i j - elt ?P i j)"
  have s: "sub y ?P = Inr ?D"
    unfolding sub_def using yr yc by (simp add: bcast_same_shape nrows_mk ncols_mk)
  have q: "map_nd (\<lambda>v. v ^ 2) ?D = mk ?n 1 (\<lambda>i j. (elt ?D i j) ^ 2)"
    by (simp add: map_nd_eq_mk [OF well_shaped_mk] nrows_mk ncols_mk)
  have m: "mean (mk ?n 1 (\<lambda>i j. (elt ?D i j) ^ 2)) = Inr ((\<Sum>i<?n. (elt ?D i 0) ^ 2) / real ?n)"
    by (rule mean_mk_column [OF n])
  have e: "(\<Sum>i<?n. (elt ?D i 0) ^ 2) / real ?n = mse_spec W X y"
    unfolding mse_spec_def by (simp add: elt_mk)
  show ?thesis
    by (simp only: evaluate_def p s q m e sum.case)
qed

text \<open>
  Claim C5. For a weight vector \<open>W\<close> (one column), a batch \<open>X\<close> with \<open>n > 0\<close> rows and a
  label vector \<open>y\<close> (one column of \<open>n\<close> entries), \<open>evaluate W X y\<close> is the mean squared
  error \<open>(1/n) * (\<Sum>i<n. (y\<^sub>i - (X W)\<^sub>i)\<^sup>2)\<close>, where \<open>X W\<close> is the prediction of the linear
  model.
\<close>

theorem evaluate_is_mse:
  fixes X y W :: ndarray
  assumes "well_shaped X" and "well_shaped W" and "well_shaped y"
    and "0 < nrows X" and "ncols X = nrows W" and "ncols W = 1"
    and "nrows y = nrows X" and "ncols y = 1"
  shows "evaluate W X y = Inr (mse_spec W X y)"
  using assms by (rule evaluate_value)

theorem evaluate_is_mse_witness:
  "well_shaped (Arr 2 1 [[1], [2]]) \<and> well_shaped (Arr 1 1 [[3]]) \<and> well_shaped (Arr 2 1 [[1], [0]]) \<and>
   evaluate (Arr 1 1 [[3]]) (Arr 2 1 [[1], [2]]) (Arr 2 1 [[1], [0]]) = Inr 20"
  using evaluate_is_mse [of "Arr 2 1 [[1], [2]]" "Arr 1 1 [[3]]" "Arr 2 1 [[1], [0]]"]
  by (simp add: well_shaped_def mse_spec_def elt_def eval_nat_numeral)

section \<open>Sigmoid and softmax\<close>









section \<open>The first classification model\<close>

text \<open>
  Claim C10. The output of the first (sigmoid) \<open>classification_model\<close> does not depend on
  its weight argument: for all weight matrices \<open>A\<close> and \<open>A'\<close>, every bias \<open>b\<close> and every
  input \<open>x\<close>, \<open>classification_model(A, b, x) = classification_model(A', b, x)\<close>, whatever
  the value of the global \<open>W\<close> that the body reads.
\<close>

theorem classification_model_ignores_A:
  "classification_model global_W A b x = classification_model global_W A' b x"
  by (simp add: classification_model_def)

text \<open>The output does follow the global: with input \<open>[[1]]\<close> and bias \<open>[[0]]\<close>, the
  globals \<open>[[0]]\<close> and \<open>[[1]]\<close> give different results.\<close>

lemma classification_model_reads_global:
  "classification_model (Arr 1 1 [[0]]) A (Arr 1 1 [[0]]) (Arr 1 1 [[1]]) = Inr (Arr 1 1 [[1 / 2]]) \<and>
   classification_model (Arr 1 1 [[1]]) A (Arr 1 1 [[0]]) (Arr 1 1 [[1]]) \<noteq> Inr (Arr 1 1 [[1 / 2]])"
  by (simp add: classification_model_def dot_def add_def bcast_def bdim_def mk_def elt_def
      map_nd_def sigmoid_def)

section \<open>Pre-processing\<close>

lemma nth_concat_rect:
  "list_all (\<lambda>r. length r = w) xss \<Longrightarrow> r < length xss \<Longrightarrow> c < w \<Longrightarrow>
   concat xss ! (r * w + c) = xss ! r ! c"
proof (induction xss arbitrary: r)
  case Nil
  then show ?case by simp
next
  case (Cons xs xss)
  show ?case
  proof (cases r)
    case 0
    with Cons.prems show ?thesis by (simp add: nth_append)
  next
    case (Suc r')
    with Cons.prems have "concat xss ! (r' * w + c) = xss ! r' ! c"
      by (intro Cons.IH) simp_all
    moreover have "Suc r' * w + c = length xs + (r' * w + c)"
      using Cons.prems by simp
    ultimately show ?thesis
      using Suc by (simp only: concat.simps nth_append_length_plus nth_Cons_Suc)
  qed
qed

lemma length_concat_rect:
  "list_all (\<lambda>r. length r = w) xss \<Longrightarrow> length (concat xss) = length xss * w"
  by (induction xss) simp_all

lemma well_shaped3_map3: "well_shaped3 T \<Longrightarrow> well_shaped3 (map3 f T)"
  by (simp add: well_shaped3_def map3_def list_all_iff)

lemma dims_map3:
  "dim0 (map3 f T) = dim0 T" "dim1 (map3 f T) = dim1 T" "dim2 (map3 f T) = dim2 T"
  by (simp_all add: map3_def)

lemma pixel_map3:
  "well_shaped3 T \<Longrightarrow> i < dim0 T \<Longrightarrow> r < dim1 T \<Longrightarrow> c < dim2 T \<Longrightarrow>
   pixel (map3 f T) i r c = f (pixel T i r c)"
  by (simp add: well_shaped3_def map3_def pixel_def list_all_length)

lemma pixels_map3: "pixels (map3 f T) = map f (pixels T)"
  by (simp add: pixels_def map3_def map_concat comp_def)

lemma flatten_value:
  assumes w: "well_shaped3 t" and n: "0 < dim0 t"
  shows "\<exists>X. flatten t = Inr X \<and> well_shaped X \<and> nrows X = dim0 t \<and> ncols X = dim1 t * dim2 t \<and>
           concat (rows X) = pixels t \<and>
           (\<forall>i<dim0 t. \<forall>r<dim1 t. \<forall>c<dim2 t. elt X i (r * dim2 t + c) = pixel t i r c)"
proof -
  let ?X = "Arr (dim0 t) (dim1 t * dim2 t) (map concat (items t))"
  have f: "flatten t = Inr ?X"
    using n by (simp add: flatten_def)
  have im: "length im = dim1 t \<and> list_all (\<lambda>r. length r = dim2 t) im" if "im \<in> set (items t)" for im
    using w that by (simp add: well_shaped3_def list_all_iff)
  have lc: "length (concat im) = dim1 t * dim2 t" if "im \<in> set (items t)" for im
    using im [OF that] length_concat_rect [of "dim2 t" im] by simp
  have wX: "well_shaped ?X"
    using w lc by (simp add: well_shaped_def well_shaped3_def list_all_iff)
  have e: "elt ?X i (r * dim2 t + c) = pixel t i r c"
    if i: "i < dim0 t" and r: "r < dim1 t" and c: "c < dim2 t" for i r c
  proof -
    have m: "items t ! i \<in> set (items t)"
      using w i by (simp add: well_shaped3_def)
    have "concat (items t ! i) ! (r * dim2 t + c) = items t ! i ! r ! c"
      using im [OF m] r c by (intro nth_concat_rect) simp_all
    then show ?thesis
      using w i by (simp add: elt_def pixel_def well_shaped3_def)
  qed
  have p: "concat (rows ?X) = pixels t"
    by (simp add: pixels_def)
  show ?thesis
    using f wX e p by auto
qed

text \<open>
  Claim C7. For a data set of \<open>n > 0\<close> images of \<open>h\<close> by \<open>w\<close> integer pixels in
  \<open>0..255\<close> (the notebook's \<open>x_train\<close> has \<open>n = 60000\<close>, \<open>h = w = 28\<close>), the pre-processing
  returns an \<open>n\<close> by \<open>h * w\<close> matrix (60000 by 784) whose entries all lie in \<open>[0, 1]\<close>. The
  flattening keeps the number of examples and every pixel value: entry \<open>r * w + c\<close> of
  row \<open>i\<close> is pixel \<open>(r, c)\<close> of the normalized image \<open>i\<close>, which is the source pixel
  divided by 255. \<open>x_test\<close> goes through the same two steps.
\<close>

theorem preprocess_normalizes_and_flattens:
  assumes w: "well_shaped3 x" and n: "0 < dim0 x"
    and px: "\<forall>p\<in>set (pixels x). 0 \<le> p \<and> p \<le> 255"
  shows "\<exists>X. preprocess x = Inr X \<and> well_shaped X \<and> nrows X = dim0 x \<and> ncols X = dim1 x * dim2 x \<and>
           (\<forall>v\<in>set (concat (rows X)). 0 \<le> v \<and> v \<le> 1) \<and>
           (\<forall>i<dim0 x. \<forall>r<dim1 x. \<forall>c<dim2 x.
              elt X i (r * dim2 x + c) = pixel (normalize_pixels x) i r c \<and>
              pixel (normalize_pixels x) i r c = real_of_int (pixel x i r c) / 255)"
proof -
  let ?t = "normalize_pixels x"
  have wt: "well_shaped3 ?t"
    unfolding normalize_pixels_def by (intro well_shaped3_map3 w)
  have d: "dim0 ?t = dim0 x" "dim1 ?t = dim1 x" "dim2 ?t = dim2 x"
    by (simp_all add: normalize_pixels_def dims_map3)
  have pt: "pixels ?t = map (\<lambda>p. real_of_int p / 255) (pixels x)"
    by (simp add: normalize_pixels_def pixels_map3)
  have rng: "\<forall>v\<in>set (pixels ?t). 0 \<le> v \<and> v \<le> 1"
    using px by (auto simp: pt)
  have val: "pixel ?t i r c = real_of_int (pixel x i r c) / 255"
    if "i < dim0 x" "r < dim1 x" "c < dim2 x" for i r c
  proof -
    have "pixel ?t i r c = pixel (map3 real_of_int x) i r c / 255"
      unfolding normalize_pixels_def using that w
      by (intro pixel_map3) (simp_all add: well_shaped3_map3 dims_map3)
    also have "pixel (map3 real_of_int x) i r c = real_of_int (pixel x i r c)"
      using that w by (intro pixel_map3)
    finally show ?thesis .
  qed
  from flatten_value [OF wt] n d obtain X where
    X: "flatten ?t = Inr X" "well_shaped X" "nrows X = dim0 x" "ncols X = dim1 x * dim2 x"
       "concat (rows X) = pixels ?t"
       "\<forall>i<dim0 x. \<forall>r<dim1 x. \<forall>c<dim2 x. elt X i (r * dim2 x + c) = pixel ?t i r c"
    by auto
  have ent: "\<forall>v\<in>set (concat (rows X)). 0 \<le> v \<and> v \<le> 1"
    using rng by (simp only: X(5))
  have idx: "\<forall>i<dim0 x. \<forall>r<dim1 x. \<forall>c<dim2 x.
              elt X i (r * dim2 x + c) = pixel ?t i r c \<and>
              pixel ?t i r c = real_of_int (pixel x i r c) / 255"
    using X(6) val by blast
  have "preprocess x = Inr X"
    by (simp add: preprocess_def X(1))
  then show ?thesis
    using X(2,3,4) ent idx by blast
qed

theorem preprocess_normalizes_and_flattens_witness:
  "well_shaped3 (Arr3 1 2 2 [[[0, 255], [51, 102]]]) \<and>
   preprocess (Arr3 1 2 2 [[[0, 255], [51, 102]]]) = Inr (Arr 1 4 [[0, 1, 1 / 5, 2 / 5]])"
  using preprocess_normalizes_and_flattens [of "Arr3 1 2 2 [[[0, 255], [51, 102]]]"]
  by (simp add: well_shaped3_def pixels_def preprocess_def flatten_def normalize_pixels_def map3_def)

section \<open>The training loop runs\<close>

lemma shape_gradient_step:
  "well_shaped (gradient_step_spec X y w eta)"
  "nrows (gradient_step_spec X y w eta) = nrows w"
  "ncols (gradient_step_spec X y w eta) = ncols w"
  by (simp_all add: gradient_step_spec_def well_shaped_mk nrows_mk ncols_mk)

lemma learn_ok:
  assumes b: "batch_ok xb yb" and w: "weights_ok xb w"
  shows "\<exists>w'. learn xb yb w eta = Inr w' \<and> weights_ok xb w'"
proof -
  have "learn xb yb w eta = Inr (gradient_step_spec xb yb w eta)"
    using b w by (intro learn_value) (simp_all add: batch_ok_def weights_ok_def)
  moreover have "weights_ok xb (gradient_step_spec xb yb w eta)"
    using w by (simp add: weights_ok_def shape_gradient_step)
  ultimately show ?thesis by blast
qed

lemma evaluate_ok:
  assumes b: "batch_ok xb yb" and w: "weights_ok xb w"
  shows "evaluate w xb yb = Inr (mse_spec w xb yb)"
  using b w by (intro evaluate_value) (simp_all add: batch_ok_def weights_ok_def)

lemma loop_body_ok:
  assumes b: "batch_ok (x_train_batch s) (y_train_batch s)"
    and w: "weights_ok (x_train_batch s) (W s)" and i: "i < length (losses s)"
  shows "\<exists>w l. learn (x_train_batch s) (y_train_batch s) (W s) (learning_rate s) = Inr w \<and>
           weights_ok (x_train_batch s) w \<and>
           evaluate w (x_train_batch s) (y_train_batch s) = Inr l \<and>
           l = mse_spec w (x_train_batch s) (y_train_batch s) \<and>
           loop_body i s = Inr (s\<lparr>W := w, losses := (losses s)[i := l]\<rparr>)"
proof -
  from learn_ok [OF b w] obtain w' where
    l: "learn (x_train_batch s) (y_train_batch s) (W s) (learning_rate s) = Inr w'"
    and w': "weights_ok (x_train_batch s) w'" by blast
  from evaluate_ok [OF b w'] obtain l' where
    e: "evaluate w' (x_train_batch s) (y_train_batch s) = Inr l'"
    and m: "l' = mse_spec w' (x_train_batch s) (y_train_batch s)" by blast
  have "loop_body i s = Inr (s\<lparr>W := w', losses := (losses s)[i := l']\<rparr>)"
    using i by (simp add: loop_body_def l e Let_def)
  then show ?thesis
    using l w' e m by blast
qed

lemma for_loop_append:
  "for_loop (xs @ ys) s = (case for_loop xs s of Inl e \<Rightarrow> Inl e | Inr s' \<Rightarrow> for_loop ys s')"
  by (induction xs arbitrary: s) (simp_all split: sum.splits)

lemma for_loop_prefix:
  assumes b: "batch_ok (x_train_batch s0) (y_train_batch s0)"
    and w: "weights_ok (x_train_batch s0) (W s0)"
  shows "k \<le> length (losses s0) \<Longrightarrow>
    \<exists>s. for_loop [0..<k] s0 = Inr s \<and>
        s = s0\<lparr>W := W s, losses := losses s\<rparr> \<and>
        weights_ok (x_train_batch s0) (W s) \<and>
        weights_after k (x_train_batch s0) (y_train_batch s0) (learning_rate s0) (W s0) = Inr (W s) \<and>
        length (losses s) = length (losses s0) \<and>
        (\<forall>i<k. \<exists>w. weights_after (Suc i) (x_train_batch s0) (y_train_batch s0) (learning_rate s0) (W s0) = Inr w \<and>
                    evaluate w (x_train_batch s0) (y_train_batch s0) = Inr (losses s ! i) \<and>
                    losses s ! i = mse_spec w (x_train_batch s0) (y_train_batch s0)) \<and>
        (\<forall>i. k \<le> i \<longrightarrow> i < length (losses s0) \<longrightarrow> losses s ! i = losses s0 ! i)"
proof (induction k)
  case 0
  show ?case
    using w by simp
next
  case (Suc k)
  let ?xb = "x_train_batch s0" and ?yb = "y_train_batch s0" and ?eta = "learning_rate s0"
  from Suc obtain s where
    run: "for_loop [0..<k] s0 = Inr s" and
    frame: "s = s0\<lparr>W := W s, losses := losses s\<rparr>" and
    ws: "weights_ok ?xb (W s)" and
    wa: "weights_after k ?xb ?yb ?eta (W s0) = Inr (W s)" and
    len: "length (losses s) = length (losses s0)" and
    prev: "\<forall>i<k. \<exists>w. weights_after (Suc i) ?xb ?yb ?eta (W s0) = Inr w \<and>
                    evaluate w ?xb ?yb = Inr (losses s ! i) \<and>
                    losses s ! i = mse_spec w ?xb ?yb" and
    rest: "\<forall>i. k \<le> i \<longrightarrow> i < length (losses s0) \<longrightarrow> losses s ! i = losses s0 ! i"
    by auto
  have same: "x_train_batch s = ?xb" "y_train_batch s = ?yb" "learning_rate s = ?eta"
    by (subst frame, simp)+
  have k: "k < length (losses s)"
    using Suc.prems len by simp
  from loop_body_ok [of s k] b ws k same obtain w' l where
    l: "learn ?xb ?yb (W s) ?eta = Inr w'" and
    w': "weights_ok ?xb w'" and
    e: "evaluate w' ?xb ?yb = Inr l" and
    m: "l = mse_spec w' ?xb ?yb" and
    body: "loop_body k s = Inr (s\<lparr>W := w', losses := (losses s)[k := l]\<rparr>)"
    by auto
  let ?s' = "s\<lparr>W := w', losses := (losses s)[k := l]\<rparr>"
  have run': "for_loop [0..<Suc k] s0 = Inr ?s'"
    by (simp add: for_loop_append run body)
  have frame': "?s' = s0\<lparr>W := W ?s', losses := losses ?s'\<rparr>"
    by (subst frame) simp
  have wa': "weights_after (Suc k) ?xb ?yb ?eta (W s0) = Inr (W ?s')"
    by (simp add: wa l)
  have prev': "\<exists>w. weights_after (Suc i) ?xb ?yb ?eta (W s0) = Inr w \<and>
                    evaluate w ?xb ?yb = Inr (losses ?s' ! i) \<and>
                    losses ?s' ! i = mse_spec w ?xb ?yb" if "i < Suc k" for i
  proof (cases "i = k")
    case True
    then show ?thesis
      using wa l e m k by simp
  next
    case False
    with that have "i < k" by simp
    with prev False show ?thesis by simp
  qed
  have rest': "losses ?s' ! i = losses s0 ! i" if "Suc k \<le> i" "i < length (losses s0)" for i
    using that rest by simp
  show ?case
    apply (rule exI [of _ ?s'])
    apply (intro conjI)
    apply (rule run')
    apply (rule frame')
    using w' apply simp
    apply (rule wa')
    using len apply simp
    using prev' apply blast
    using rest' apply blast
    done
qed


lemma init_training_ok:
  assumes "ncols xb = ncols x_train"
  shows "weights_ok xb (W (init_training rnd x_train xb yb))"
  using assms
  by (simp add: init_training_def Let_def weights_ok_def smul_def well_shaped_map_nd
      well_shaped_mk nrows_map_nd ncols_map_nd nrows_mk ncols_mk)

lemma init_training_fields:
  "x_train_batch (init_training rnd x_train xb yb) = xb"
  "y_train_batch (init_training rnd x_train xb yb) = yb"
  "learning_rate (init_training rnd x_train xb yb) = 0.0005"
  "losses (init_training rnd x_train xb yb) = replicate num_iters 0"
  by (simp_all add: init_training_def Let_def)

lemma training_cell_run:
  assumes b: "batch_ok xb yb" and f: "ncols xb = ncols x_train"
  shows "\<exists>s. training_cell rnd x_train xb yb = Inr s \<and>
           s = (init_training rnd x_train xb yb)\<lparr>W := W s, losses := losses s\<rparr> \<and>
           length (losses s) = num_iters \<and>
           weights_after num_iters xb yb 0.0005 (W (init_training rnd x_train xb yb)) = Inr (W s) \<and>
           (\<forall>i<num_iters. \<exists>w. weights_after (Suc i) xb yb 0.0005 (W (init_training rnd x_train xb yb)) = Inr w \<and>
                                evaluate w xb yb = Inr (losses s ! i) \<and>
                                losses s ! i = mse_spec w xb yb)"
proof -
  let ?s0 = "init_training rnd x_train xb yb"
  have b0: "batch_ok (x_train_batch ?s0) (y_train_batch ?s0)"
    using b by (simp add: init_training_fields)
  have w0: "weights_ok (x_train_batch ?s0) (W ?s0)"
    using init_training_ok [OF f] by (simp add: init_training_fields)
  have k: "num_iters \<le> length (losses ?s0)"
    by (simp add: init_training_fields)
  from for_loop_prefix [OF b0 w0 k] obtain s where
    "for_loop [0..<num_iters] ?s0 = Inr s"
    "s = ?s0\<lparr>W := W s, losses := losses s\<rparr>"
    "weights_after num_iters xb yb 0.0005 (W ?s0) = Inr (W s)"
    "length (losses s) = num_iters"
    "\<forall>i<num_iters. \<exists>w. weights_after (Suc i) xb yb 0.0005 (W ?s0) = Inr w \<and>
                         evaluate w xb yb = Inr (losses s ! i) \<and>
                         losses s ! i = mse_spec w xb yb"
    unfolding init_training_fields by auto
  then show ?thesis
    unfolding training_cell_def by blast
qed


text \<open>
  Claim C9. On a batch of \<open>n > 0\<close> examples with one weight per feature, the training
  cell terminates without an exception after exactly \<open>num_iters = 5000\<close> gradient-descent
  updates: the final \<open>W\<close> is the initial one after 5000 updates, \<open>losses\<close> has exactly
  \<open>num_iters\<close> entries, and for every \<open>i\<close> its \<open>i\<close>-th entry is \<open>evaluate\<close>, the mean
  squared error \<open>mse_spec\<close>, of the weights after \<open>i + 1\<close> updates on the fixed batch.
\<close>

theorem training_loop_losses:
  assumes "batch_ok xb yb" and "ncols xb = ncols x_train"
  shows "\<exists>s. training_cell rnd x_train xb yb = Inr s \<and>
           num_iters = 5000 \<and> length (losses s) = num_iters \<and>
           weights_after num_iters xb yb 0.0005 (W (init_training rnd x_train xb yb)) = Inr (W s) \<and>
           (\<forall>i<num_iters. \<exists>w. weights_after (Suc i) xb yb 0.0005 (W (init_training rnd x_train xb yb)) = Inr w \<and>
                                evaluate w xb yb = Inr (losses s ! i) \<and>
                                losses s ! i = mse_spec w xb yb)"
  using training_cell_run [OF assms, of rnd] by (auto simp: num_iters_def)

theorem training_loop_losses_witness:
  "batch_ok (Arr 1 1 [[1]]) (Arr 1 1 [[1]]) \<and>
   (\<exists>s. training_cell (\<lambda>i j. 0) (Arr 1 1 [[1]]) (Arr 1 1 [[1]]) (Arr 1 1 [[1]]) = Inr s \<and>
        length (losses s) = 5000 \<and>
        evaluate (Arr 1 1 [[1 / 1000]]) (Arr 1 1 [[1]]) (Arr 1 1 [[1]]) = Inr (losses s ! 0))"
proof -
  have b: "batch_ok (Arr 1 1 [[1]]) (Arr 1 1 [[1]])"
    by (simp add: batch_ok_def well_shaped_def)
  have c: "ncols (Arr 1 1 [[1]]) = ncols (Arr 1 1 [[1]])"
    by simp
  have w1: "weights_after (Suc 0) (Arr 1 1 [[1]]) (Arr 1 1 [[1]]) 0.0005
              (W (init_training (\<lambda>i j. 0) (Arr 1 1 [[1]]) (Arr 1 1 [[1]]) (Arr 1 1 [[1]])))
            = Inr (Arr 1 1 [[1 / 1000]])"
    by (simp add: init_training_def learn_def linear_model_def dot_def sub_def bcast_def bdim_def
        mk_def elt_def smul_def map_nd_def transpose_nd_def)
  from training_loop_losses [OF b c, of "\<lambda>i j. 0"] obtain s where
    s: "training_cell (\<lambda>i j. 0) (Arr 1 1 [[1]]) (Arr 1 1 [[1]]) (Arr 1 1 [[1]]) = Inr s"
       "length (losses s) = num_iters" "num_iters = 5000"
       "\<forall>i<num_iters. \<exists>w. weights_after (Suc i) (Arr 1 1 [[1]]) (Arr 1 1 [[1]]) 0.0005
            (W (init_training (\<lambda>i j. 0) (Arr 1 1 [[1]]) (Arr 1 1 [[1]]) (Arr 1 1 [[1]]))) = Inr w \<and>
            evaluate w (Arr 1 1 [[1]]) (Arr 1 1 [[1]]) = Inr (losses s ! i)"
    by blast
  have "0 < num_iters" using s(3) by simp
  with s(4) have "\<exists>w. weights_after (Suc 0) (Arr 1 1 [[1]]) (Arr 1 1 [[1]]) 0.0005
            (W (init_training (\<lambda>i j. 0) (Arr 1 1 [[1]]) (Arr 1 1 [[1]]) (Arr 1 1 [[1]]))) = Inr w \<and>
            evaluate w (Arr 1 1 [[1]]) (Arr 1 1 [[1]]) = Inr (losses s ! 0)"
    by blast
  then have "evaluate (Arr 1 1 [[1 / 1000]]) (Arr 1 1 [[1]]) (Arr 1 1 [[1]]) = Inr (losses s ! 0)"
    unfolding w1 by simp
  with b s show ?thesis by auto
qed



section \<open>The slimmed data set\<close>

lemma series_gt_value:
  "list_all (\<lambda>c. \<not> is_string c) cs \<Longrightarrow> series_gt cs k = Inr (map (\<lambda>c. exceeds c k) cs)"
proof (induction cs)
  case Nil
  then show ?case by simp
next
  case (Cons c cs)
  then have "\<not> is_string c" by simp
  then have "gt_scalar c k = Inr (exceeds c k)"
    by (cases c) (simp_all add: is_string_def exceeds_def)
  with Cons show ?case by simp
qed

lemma filter_by_mask: "map fst (filter snd (zip xs (map P xs))) = filter P xs"
  by (induction xs) simp_all

lemma make_df2_value:
  assumes k: "index_of ''OverallCond'' (columns df) = Some k"
    and num: "list_all (\<lambda>r. \<not> is_string (snd r ! k)) (records df)"
  shows "make_df2 df = Inr (df\<lparr>records := filter (\<lambda>r. exceeds (snd r ! k) 5) (records df)\<rparr>)"
proof -
  have c: "getitem_column df ''OverallCond'' = Inr (map (\<lambda>r. snd r ! k) (records df))"
    by (simp add: getitem_column_def k)
  have "list_all (\<lambda>c. \<not> is_string c) (map (\<lambda>r. snd r ! k) (records df))"
    using num by (simp add: list_all_iff)
  then have m: "series_gt (map (\<lambda>r. snd r ! k) (records df)) 5
                = Inr (map (\<lambda>c. exceeds c 5) (map (\<lambda>r. snd r ! k) (records df)))"
    by (rule series_gt_value)
  have f: "map fst (filter snd (zip (records df) (map (\<lambda>r. exceeds (snd r ! k) 5) (records df))))
           = filter (\<lambda>r. exceeds (snd r ! k) 5) (records df)"
    by (rule filter_by_mask)
  show ?thesis
    by (simp add: make_df2_def c m getitem_mask_def comp_def f)
qed



lemma column_indices_two:
  "index_of a cols = Some p \<Longrightarrow> index_of b cols = Some q \<Longrightarrow> column_indices cols [a, b] = Inr [p, q]"
  by simp

text \<open>
  Claim C3, amended. The file written by the first notebook is a three-column table: a
  header line with the empty name of the index and the names \<open>SalePrice\<close> and
  \<open>GrLivArea\<close>, then, for every filtered row in order, the index label of the row in the
  source table followed by exactly its sale price and its living area, and nothing else.
  The frame \<open>slim_df\<close> that is written has the two columns \<open>SalePrice\<close> and \<open>GrLivArea\<close>.
\<close>

theorem csv_has_index_and_two_columns:
  assumes wf: "well_formed df" and k: "index_of ''OverallCond'' (columns df) = Some k"
    and num: "list_all (\<lambda>r. \<not> is_string (snd r ! k)) (records df)"
    and p: "index_of ''SalePrice'' (columns df) = Some p"
    and a: "index_of ''GrLivArea'' (columns df) = Some a"
  shows "\<exists>df2 slim_df. make_df2 df = Inr df2 \<and> make_slim_df df2 = Inr slim_df \<and>
           columns slim_df = [''SalePrice'', ''GrLivArea''] \<and>
           records slim_df = map (\<lambda>r. (fst r, [snd r ! p, snd r ! a])) (records df2) \<and>
           slimmed_realestate_data df =
             Inr ([StrV [], StrV ''SalePrice'', StrV ''GrLivArea''] #
                  map (\<lambda>r. [IntV (fst r), snd r ! p, snd r ! a]) (records df2))"
proof -
  let ?df2 = "df\<lparr>records := filter (\<lambda>r. exceeds (snd r ! k) 5) (records df)\<rparr>"
  let ?slim = "\<lparr>columns = [''SalePrice'', ''GrLivArea''],
                records = map (\<lambda>r. (fst r, [snd r ! p, snd r ! a])) (records ?df2)\<rparr>"
  have d: "make_df2 df = Inr ?df2"
    by (rule make_df2_value [OF k num])
  have s: "make_slim_df ?df2 = Inr ?slim"
    by (simp add: make_slim_df_def getitem_columns_def p a)
  have c: "to_csv ?slim = [StrV [], StrV ''SalePrice'', StrV ''GrLivArea''] #
                  map (\<lambda>r. [IntV (fst r), snd r ! p, snd r ! a]) (records ?df2)"
    by (simp add: to_csv_def comp_def)
  have "slimmed_realestate_data df = Inr (to_csv ?slim)"
    by (simp only: slimmed_realestate_data_def d s sum.case)
  with d s c show ?thesis
    by (intro exI [of _ ?df2] exI [of _ ?slim]) simp
qed

text \<open>The claim as stated, a two-column table, fails on a source table of two rows, one
  of them in condition 8: both lines of the file have three fields.\<close>

theorem csv_three_columns_counterexample:
  "slimmed_realestate_data
     \<lparr>columns = [''OverallCond'', ''GrLivArea'', ''SalePrice''],
      records = [(0, [IntV 5, IntV 1710, IntV 208500]), (1, [IntV 8, IntV 1262, IntV 181500])]\<rparr>
   = Inr [[StrV [], StrV ''SalePrice'', StrV ''GrLivArea''], [IntV 1, IntV 181500, IntV 1262]] \<and>
   \<not> list_all (\<lambda>line. length line = 2)
       [[StrV [], StrV ''SalePrice'', StrV ''GrLivArea''], [IntV 1, IntV 181500, IntV 1262]]"
  by (simp add: slimmed_realestate_data_def make_df2_def getitem_column_def getitem_mask_def
      make_slim_df_def getitem_columns_def to_csv_def)

theorem csv_has_index_and_two_columns_witness:
  "index_of ''OverallCond'' [''OverallCond'', ''GrLivArea'', ''SalePrice''] = Some 0 \<and>
   slimmed_realestate_data
     \<lparr>columns = [''OverallCond'', ''GrLivArea'', ''SalePrice''],
      records = [(0, [IntV 5, IntV 1710, IntV 208500]), (1, [IntV 8, IntV 1262, IntV 181500])]\<rparr>
   = Inr [[StrV [], StrV ''SalePrice'', StrV ''GrLivArea''], [IntV 1, IntV 181500, IntV 1262]]"
  using csv_has_index_and_two_columns [of "\<lparr>columns = [''OverallCond'', ''GrLivArea'', ''SalePrice''],
      records = [(0, [IntV 5, IntV 1710, IntV 208500]), (1, [IntV 8, IntV 1262, IntV 181500])]\<rparr>" 0 2 1]
  by (auto simp: is_string_def exceeds_def make_df2_def getitem_column_def getitem_mask_def
      well_formed_def)

section \<open>What the cells of the second notebook change\<close>

lemma assign_other: "n \<notin> fst ` set bs \<Longrightarrow> assign g bs n = g n"
  by (induction g bs rule: assign.induct) auto

lemma keeps_simple:
  "keeps (''W'' # mlp_params) cell_imports"
  "keeps (''W'' # mlp_params) (cell_load ext)"
  "keeps (''W'' # mlp_params) cell_def_linear_model"
  "keeps (''W'' # mlp_params) cell_def_evaluate"
  "keeps (''W'' # mlp_params) cell_def_learn"
  "keeps (''W'' # mlp_params) cell_def_sigmoid"
  "keeps (''W'' # mlp_params) cell_plot_sigmoid"
  "keeps (''W'' # mlp_params) cell_def_softmax"
  "keeps (''W'' # mlp_params) cell_def_nonlinear_model"
  "keeps (''W'' # mlp_params) cell_def_nonlinear_model3"
  "keeps (''W'' # mlp_params) cell_empty"
  by (auto simp: keeps_def mlp_params_def cell_imports_def cell_load_def cell_def_linear_model_def
      cell_def_evaluate_def cell_def_learn_def cell_def_sigmoid_def cell_plot_sigmoid_def
      cell_def_softmax_def cell_def_nonlinear_model_def cell_def_nonlinear_model3_def
      cell_empty_def split: prod.splits)

lemma keeps_reading:
  "keeps (''W'' # mlp_params) cell_normalize"
  "keeps (''W'' # mlp_params) cell_flatten"
  "keeps (''W'' # mlp_params) cell_labels"
  "keeps (''W'' # mlp_params) cell_show_digits"
  "keeps (''W'' # mlp_params) cell_batch"
  by (auto simp: keeps_def mlp_params_def cell_normalize_def cell_flatten_def cell_labels_def
      cell_show_digits_def cell_batch_def split: sum.splits)

lemma keeps_later:
  "keeps (''W'' # mlp_params) cell_check_linear"
  "keeps (''W'' # mlp_params) (cell_onehot ext)"
  "keeps (''W'' # mlp_params) cell_show_onehot"
  "keeps (''W'' # mlp_params) cell_apply_classifier"
  "keeps (''W'' # mlp_params) cell_print_probabilities"
  by (auto simp: keeps_def mlp_params_def cell_check_linear_def cell_onehot_def
      cell_show_onehot_def cell_apply_classifier_def cell_print_probabilities_def
      split: sum.splits if_splits)

lemma keeps_W_cells:
  "keeps mlp_params (cell_train ext)"
  "keeps mlp_params (cell_init_classifier ext)"
  by (auto simp: keeps_def mlp_params_def cell_train_def cell_init_classifier_def
      split: sum.splits if_splits)

lemma loop_body_result:
  assumes "loop_body i s = Inr s'"
  shows "learn (x_train_batch s) (y_train_batch s) (W s) (learning_rate s) = Inr (W s') \<and>
         x_train_batch s' = x_train_batch s \<and> y_train_batch s' = y_train_batch s \<and>
         learning_rate s' = learning_rate s"
  using assms by (auto simp: loop_body_def Let_def split: sum.splits if_splits)

lemma for_loop_result:
  "for_loop [0..<k] s0 = Inr s \<Longrightarrow>
   weights_after k (x_train_batch s0) (y_train_batch s0) (learning_rate s0) (W s0) = Inr (W s) \<and>
   x_train_batch s = x_train_batch s0 \<and> y_train_batch s = y_train_batch s0 \<and>
   learning_rate s = learning_rate s0"
proof (induction k arbitrary: s)
  case 0
  then show ?case by simp
next
  case (Suc k)
  from Suc.prems obtain s1 where
    a: "for_loop [0..<k] s0 = Inr s1" and b: "loop_body k s1 = Inr s"
    by (auto simp: for_loop_append split: sum.splits)
  from Suc.IH [OF a] loop_body_result [OF b] show ?case
    by simp
qed

lemma training_cell_result:
  assumes "training_cell rnd x xb yb = Inr s"
  shows "weights_after num_iters xb yb 0.0005 (W (init_training rnd x xb yb)) = Inr (W s)"
  using for_loop_result [of num_iters "init_training rnd x xb yb" s] assms
  by (simp add: training_cell_def init_training_def Let_def)

lemma cell_train_result:
  assumes "cell_train ext g = Inr g'"
  shows "\<exists>x xb yb w. g ''x_train'' = Some (VArr x) \<and> g ''x_train_batch'' = Some (VArr xb) \<and>
           g ''y_train_batch'' = Some (VArr yb) \<and>
           weights_after num_iters xb yb 0.0005 (W (init_training (random_rand ext 0) x xb yb)) = Inr w \<and>
           g' ''W'' = Some (VArr w)"
proof -
  from assms obtain x xb yb s where
    x: "get_arr g ''x_train'' = Inr x" and xb: "get_arr g ''x_train_batch'' = Inr xb" and
    yb: "get_arr g ''y_train_batch'' = Inr yb" and
    t: "training_cell (random_rand ext 0) x xb yb = Inr s" and
    g': "g' = assign g [(''num_features'', VInt (int (ncols x))),
                        (''learning_rate'', VFloat (learning_rate s)),
                        (''num_iters'', VInt (int num_iters)),
                        (''W'', VArr (W s)),
                        (''losses'', VVec (losses s)),
                        (''i'', VInt (int num_iters - 1))]"
    by (auto simp: cell_train_def split: sum.splits)
  have "g ''x_train'' = Some (VArr x)" "g ''x_train_batch'' = Some (VArr xb)"
       "g ''y_train_batch'' = Some (VArr yb)"
    using x xb yb by (auto simp: get_arr_def split: option.splits pyval.splits)
  moreover have "g' ''W'' = Some (VArr (W s))"
    by (simp add: g')
  ultimately show ?thesis
    using training_cell_result [OF t] by blast
qed

lemma keeps_weaken: "keeps (n # ns) c \<Longrightarrow> keeps ns c"
  by (simp add: keeps_def)

lemma keeps_head: "keeps (n # ns) c \<Longrightarrow> keeps [n] c"
  by (simp add: keeps_def)

lemma notebook_cases:
  assumes "c \<in> set (notebook ext)"
  shows "c = cell_train ext \<or> c = cell_init_classifier ext \<or> keeps (''W'' # mlp_params) c"
proof -
  from assms have "c \<in> {cell_train ext, cell_init_classifier ext} \<or>
      c \<in> {cell_imports, cell_load ext, cell_normalize, cell_flatten, cell_labels,
        cell_show_digits, cell_def_linear_model, cell_def_evaluate, cell_def_learn,
        cell_batch, cell_check_linear, cell_def_sigmoid, cell_plot_sigmoid,
        cell_onehot ext, cell_show_onehot, cell_def_softmax,
        cell_apply_classifier, cell_print_probabilities, cell_def_nonlinear_model,
        cell_def_nonlinear_model3, cell_empty}"
    unfolding notebook_def by (simp only: set_simps insert_iff empty_iff) blast
  moreover have "keeps (''W'' # mlp_params) c"
    if "c \<in> {cell_imports, cell_load ext, cell_normalize, cell_flatten, cell_labels,
        cell_show_digits, cell_def_linear_model, cell_def_evaluate, cell_def_learn,
        cell_batch, cell_check_linear, cell_def_sigmoid, cell_plot_sigmoid,
        cell_onehot ext, cell_show_onehot, cell_def_softmax,
        cell_apply_classifier, cell_print_probabilities, cell_def_nonlinear_model,
        cell_def_nonlinear_model3, cell_empty}"
    using that unfolding insert_iff empty_iff
    by (elim disjE) (simp_all only: keeps_simple keeps_reading keeps_later)
  ultimately show ?thesis by blast
qed

lemma notebook_keeps_mlp_params: "c \<in> set (notebook ext) \<Longrightarrow> keeps mlp_params c"
  using notebook_cases [of c ext] keeps_W_cells [of ext] keeps_weaken [of "''W''" mlp_params c]
  by blast

lemma notebook_keeps_W:
  "c \<in> set (notebook ext) \<Longrightarrow> c \<noteq> cell_train ext \<Longrightarrow> c \<noteq> cell_init_classifier ext \<Longrightarrow>
   keeps [''W''] c"
  using notebook_cases [of c ext] keeps_head [of "''W''" mlp_params c]
  by blast

lemma run_cells_keeps:
  "(\<And>c. c \<in> set cs \<Longrightarrow> keeps ns c) \<Longrightarrow> run_cells cs g = Inr g' \<Longrightarrow> n \<in> set ns \<Longrightarrow> g' n = g n"
proof (induction cs arbitrary: g)
  case Nil
  then show ?case by simp
next
  case (Cons c cs)
  from Cons.prems(2) obtain g1 where a: "c g = Inr g1" and b: "run_cells cs g1 = Inr g'"
    by (auto split: sum.splits)
  have "g1 n = g n"
    using Cons.prems(1) [of c] a Cons.prems(3) by (simp add: keeps_def)
  moreover have "g' n = g1 n"
    using Cons.prems(1,3) b by (intro Cons.IH) simp_all
  ultimately show ?case by simp
qed

text \<open>The claim as stated fails: there is no data set, no cell of the notebook and no
  state of the global variables from which the cell returns with \<open>W1\<close>, \<open>W2\<close>, \<open>b1\<close> or
  \<open>b2\<close> changed. The notebook defines \<open>nonlinear_model\<close> and never updates, or even
  creates, its parameters.\<close>

theorem no_cell_updates_mlp_params:
  "\<not> (\<exists>ext. \<exists>c\<in>set (notebook ext). \<exists>g g'. c g = Inr g' \<and> (\<exists>n\<in>set mlp_params. g' n \<noteq> g n))"
  using notebook_keeps_mlp_params by (fastforce simp: keeps_def)

text \<open>
  Claim C1, amended. The notebook trains, by gradient descent, the linear regressor only.
  Whenever a cell of the notebook returns, \<open>W1\<close>, \<open>W2\<close>, \<open>b1\<close> and \<open>b2\<close>, the parameters of
  the multi-layer perceptron \<open>nonlinear_model\<close>, are as they were before the cell, and so
  they are after a run of all cells; a cell that changes \<open>W\<close> is the training cell or the
  cell that draws a new random \<open>W\<close> for the softmax classifier; and the training cell
  leaves in \<open>W\<close> the initial weights after \<open>num_iters\<close> updates by \<open>learn\<close> on the batch.
\<close>

theorem only_the_linear_model_is_trained:
  assumes c: "c \<in> set (notebook ext)" and r: "c g = Inr g'"
  shows "(\<forall>n\<in>set mlp_params. g' n = g n) \<and>
         (g' ''W'' \<noteq> g ''W'' \<longrightarrow> c = cell_train ext \<or> c = cell_init_classifier ext) \<and>
         (c = cell_train ext \<longrightarrow>
            (\<exists>x xb yb w. g ''x_train'' = Some (VArr x) \<and> g ''x_train_batch'' = Some (VArr xb) \<and>
               g ''y_train_batch'' = Some (VArr yb) \<and>
               weights_after num_iters xb yb 0.0005
                 (W (init_training (random_rand ext 0) x xb yb)) = Inr w \<and>
               g' ''W'' = Some (VArr w))) \<and>
         (\<forall>g0 gN. run_cells (notebook ext) g0 = Inr gN \<longrightarrow> (\<forall>n\<in>set mlp_params. gN n = g0 n))"
proof (intro conjI)
  show "\<forall>n\<in>set mlp_params. g' n = g n"
    using notebook_keeps_mlp_params [OF c] r by (simp add: keeps_def)
  show "g' ''W'' \<noteq> g ''W'' \<longrightarrow> c = cell_train ext \<or> c = cell_init_classifier ext"
    using notebook_keeps_W [OF c] r by (auto simp: keeps_def)
  show "c = cell_train ext \<longrightarrow>
            (\<exists>x xb yb w. g ''x_train'' = Some (VArr x) \<and> g ''x_train_batch'' = Some (VArr xb) \<and>
               g ''y_train_batch'' = Some (VArr yb) \<and>
               weights_after num_iters xb yb 0.0005
                 (W (init_training (random_rand ext 0) x xb yb)) = Inr w \<and>
               g' ''W'' = Some (VArr w))"
    using cell_train_result r by blast
  show "\<forall>g0 gN. run_cells (notebook ext) g0 = Inr gN \<longrightarrow> (\<forall>n\<in>set mlp_params. gN n = g0 n)"
    using run_cells_keeps [of "notebook ext" mlp_params] notebook_keeps_mlp_params by blast
qed

theorem only_the_linear_model_is_trained_witness:
  "\<exists>g'. cell_train \<lparr>load_data = ((Arr3 0 0 0 [], []), (Arr3 0 0 0 [], [])),
                     random_rand = (\<lambda>k i j. 0), to_categorical = (\<lambda>y k. Inl ValueError)\<rparr>
          [''x_train'' \<mapsto> VArr (Arr 1 1 [[1]]), ''x_train_batch'' \<mapsto> VArr (Arr 1 1 [[1]]),
           ''y_train_batch'' \<mapsto> VArr (Arr 1 1 [[1]])] = Inr g' \<and>
        g' ''W1'' = None \<and> g' ''W2'' = None \<and> g' ''b1'' = None \<and> g' ''b2'' = None \<and>
        (\<exists>w. g' ''W'' = Some (VArr w) \<and>
           weights_after num_iters (Arr 1 1 [[1]]) (Arr 1 1 [[1]]) 0.0005
             (W (init_training (\<lambda>i j. 0) (Arr 1 1 [[1]]) (Arr 1 1 [[1]]) (Arr 1 1 [[1]]))) = Inr w)"
proof -
  let ?ext = "\<lparr>load_data = ((Arr3 0 0 0 [], []), (Arr3 0 0 0 [], [])),
               random_rand = (\<lambda>k i j. 0), to_categorical = (\<lambda>y k. Inl ValueError)\<rparr>"
  let ?a = "Arr 1 1 [[1]]"
  let ?g = "[''x_train'' \<mapsto> VArr ?a, ''x_train_batch'' \<mapsto> VArr ?a, ''y_train_batch'' \<mapsto> VArr ?a]"
  have b: "batch_ok ?a ?a"
    by (simp add: batch_ok_def well_shaped_def)
  from training_cell_run [OF b, of ?a "\<lambda>i j. 0"] obtain s where
    s: "training_cell (\<lambda>i j. 0) ?a ?a ?a = Inr s"
    by auto
  obtain g' where g': "cell_train ?ext ?g = Inr g'"
    by (simp add: cell_train_def get_arr_def s del: One_nat_def)
  have m: "cell_train ?ext \<in> set (notebook ?ext)"
    by (simp add: notebook_def)
  have p: "''W1'' \<in> set mlp_params" "''W2'' \<in> set mlp_params" "''b1'' \<in> set mlp_params"
    "''b2'' \<in> set mlp_params"
    by (simp_all add: mlp_params_def)
  from only_the_linear_model_is_trained [OF m g'] have
    k: "\<forall>n\<in>set mlp_params. g' n = ?g n" and
    t: "\<exists>x xb yb w. ?g ''x_train'' = Some (VArr x) \<and> ?g ''x_train_batch'' = Some (VArr xb) \<and>
               ?g ''y_train_batch'' = Some (VArr yb) \<and>
               weights_after num_iters xb yb 0.0005
                 (W (init_training (random_rand ?ext 0) x xb yb)) = Inr w \<and>
               g' ''W'' = Some (VArr w)"
    by blast+
  from k p have n: "g' ''W1'' = None" "g' ''W2'' = None" "g' ''b1'' = None" "g' ''b2'' = None"
    by simp_all
  from t have "\<exists>w. g' ''W'' = Some (VArr w) \<and>
           weights_after num_iters ?a ?a 0.0005 (W (init_training (\<lambda>i j. 0) ?a ?a ?a)) = Inr w"
    by auto
  with g' n show ?thesis by blast
qed

end
